theory Spec2Isabelle
  imports Main "HOL-Library.Word"
begin

section \<open>Constants of the file format (p8est\_io.h)\<close>

type_synonym byte = "8 word"

definition P4EST_NUM_METADATA_BYTES :: nat where
  "P4EST_NUM_METADATA_BYTES = 64"

definition P4EST_NUM_ARRAY_METADATA_BYTES :: nat where
  "P4EST_NUM_ARRAY_METADATA_BYTES = 14"

definition P4EST_BYTE_DIV :: nat where
  "P4EST_BYTE_DIV = 16"

definition P4EST_MAX_NUM_PAD_BYTES :: nat where
  "P4EST_MAX_NUM_PAD_BYTES = P4EST_BYTE_DIV + 1"

definition P4EST_NUM_USER_STRING_BYTES :: nat where
  "P4EST_NUM_USER_STRING_BYTES = 48"

definition P4EST_NUM_FIELD_HEADER_BYTES :: nat where
  "P4EST_NUM_FIELD_HEADER_BYTES =
     2 + P4EST_NUM_ARRAY_METADATA_BYTES + P4EST_NUM_USER_STRING_BYTES"

section \<open>Padding (get\_padding\_string)\<close>

text \<open>
  The C function has two outputs: the number of padding bytes, always, and the padding
  string, when the caller passes a buffer. \<open>padding_count\<close> is the first output.
  All quantities are \<open>size_t\<close>; the remainder is below the divisor, so the
  subtraction never wraps and \<open>nat\<close> arithmetic is exact.
\<close>

definition padding_count :: "nat \<Rightarrow> nat \<Rightarrow> nat" where
  "padding_count num_bytes divisor =
     (let n = (divisor - (num_bytes mod divisor)) mod divisor
      in if n = 0 \<or> n = 1 then n + divisor else n)"

text \<open>
  \<open>snprintf (pad, n + 1, "\n%-*s\n", n - 2, "")\<close>: the format expands to a newline,
  the empty string left-justified in a field of \<open>n - 2\<close> spaces, and a newline;
  \<open>snprintf\<close> keeps at most \<open>n\<close> characters of it (and a terminating NUL
  that is not part of the padding).
\<close>

definition pad_format :: "nat \<Rightarrow> string" where
  "pad_format width = CHR 0x0A # replicate width CHR '' '' @ [CHR 0x0A]"

definition snprintf :: "nat \<Rightarrow> string \<Rightarrow> string" where
  "snprintf sz s = take (sz - 1) s"

text \<open>
  \<open>get_padding_string\<close> stores the number of padding bytes through
  \<open>num_pad_bytes\<close> and, when the caller passes a buffer \<open>pad\<close>, the padding string
  in it: the pair of both. A caller that passes \<open>NULL\<close> uses the number only.
  (The callers' buffer has \<open>P4EST_MAX_NUM_PAD_BYTES = 17\<close> bytes and \<open>snprintf\<close>
  stores a terminating NUL after the padding; the model keeps the padding characters.)
\<close>

definition get_padding_string :: "nat \<Rightarrow> nat \<Rightarrow> nat \<times> string" where
  "get_padding_string num_bytes divisor =
     (let n = padding_count num_bytes divisor
      in (n, snprintf (n + 1) (pad_format (n - 2))))"

definition pad_len :: "nat \<Rightarrow> nat" where
  "pad_len L = fst (get_padding_string L P4EST_BYTE_DIV)"

definition pad_bytes :: "nat \<Rightarrow> string" where
  "pad_bytes L = snd (get_padding_string L P4EST_BYTE_DIV)"

section \<open>C strings, formatted output and integer conversions\<close>

definition NUL :: char where
  "NUL = CHR 0x00"

definition NL :: char where
  "NL = CHR 0x0A"

text \<open>The C string that starts at the head of a buffer: the bytes before the first NUL.\<close>

definition c_str :: "string \<Rightarrow> string" where
  "c_str buf = takeWhile (\<lambda>c. c \<noteq> NUL) buf"

fun dec_digits :: "nat \<Rightarrow> string" where
  "dec_digits n =
     (if n < 10 then [char_of (48 + n)]
      else dec_digits (n div 10) @ [char_of (48 + n mod 10)])"

declare dec_digits.simps [simp del]

text \<open>\<open>%.13llu\<close>: the decimal digits, with leading zeros up to the precision.\<close>

definition printf_llu :: "nat \<Rightarrow> nat \<Rightarrow> string" where
  "printf_llu prec n = replicate (prec - length (dec_digits n)) CHR ''0'' @ dec_digits n"

text \<open>\<open>%-47s\<close>: the string, with spaces on the right up to the field width.\<close>

definition printf_ljust :: "nat \<Rightarrow> string \<Rightarrow> string" where
  "printf_ljust width str = str @ replicate (width - length str) CHR '' ''"

text \<open>
  \<open>sc_atol\<close> is libsc's call of \<open>strtol\<close> in base 10: white space, an optional sign,
  then digits up to the first other character; the value is clamped to the range of
  \<open>long\<close>.
\<close>

definition isspace :: "char \<Rightarrow> bool" where
  "isspace c = (c \<in> set [CHR '' '', CHR 0x09, CHR 0x0A, CHR 0x0B, CHR 0x0C, CHR 0x0D])"

definition isdigit :: "char \<Rightarrow> bool" where
  "isdigit c = (48 \<le> (of_char c :: nat) \<and> (of_char c :: nat) \<le> 57)"

fun strtol_digits :: "nat \<Rightarrow> string \<Rightarrow> nat" where
  "strtol_digits acc [] = acc"
| "strtol_digits acc (c # cs) =
     (if isdigit c then strtol_digits (10 * acc + (of_char c - 48)) cs else acc)"

definition LONG_MAX :: int where
  "LONG_MAX = 2 ^ 63 - 1"

definition sc_atol :: "string \<Rightarrow> int" where
  "sc_atol nptr =
     (let s1 = dropWhile isspace nptr;
          neg = (case s1 of [] \<Rightarrow> False | c # _ \<Rightarrow> c = CHR ''-'');
          s2 = (case s1 of [] \<Rightarrow> [] | c # cs \<Rightarrow> if c = CHR ''-'' \<or> c = CHR ''+'' then cs else s1);
          v = int (strtol_digits 0 s2)
      in if neg then max (- v) (- LONG_MAX - 1) else min v LONG_MAX)"

text \<open>
  Conversions between the integer types of the code: \<open>(int)\<close> of a \<open>size_t\<close> keeps
  the low 32 bits as a signed value; a signed 64-bit value converted to \<open>size_t\<close> is
  taken modulo \<open>2^64\<close>, and so are \<open>size_t\<close> products and differences.
\<close>

definition c_int :: "nat \<Rightarrow> int" where
  "c_int n = sint (word_of_nat n :: 32 word)"

definition to_size_t :: "int \<Rightarrow> nat" where
  "to_size_t i = unat (word_of_int i :: 64 word)"

definition size_t_mul :: "nat \<Rightarrow> nat \<Rightarrow> nat" where
  "size_t_mul a b = (a * b) mod 2 ^ 64"

definition size_t_sub :: "nat \<Rightarrow> nat \<Rightarrow> nat" where
  "size_t_sub a b = (if b \<le> a then a - b else 2 ^ 64 + a - b)"

section \<open>The collective I/O layer\<close>

text \<open>
  The I/O functions (\<open>sc_io_read_at\<close>, \<open>sc_io_write_at\<close>, \<open>sc_io_write_at_all\<close>,
  \<open>MPI_File_set_size\<close>, \<open>MPI_File_get_size\<close>, \<open>sc_io_close\<close>,
  \<open>sc_io_error_class\<close>) belong to libsc and MPI. A file is its sequence of bytes.
  A transfer moves the bytes that the file holds at the offset, as \<open>pread\<close> and
  \<open>pwrite\<close> do (a write past the end fills the gap with zero bytes; a read at the end
  returns fewer bytes and no error). Everything else the layer decides is a parameter:
  the error code of each call and the number of bytes it fails to transfer, the error
  codes \<open>EIO\<close> and \<open>sc_MPI_ERR_IO\<close>, the classification of error codes, and whether
  the build has MPI I/O (\<open>P4EST_ENABLE_MPIIO\<close>).
\<close>

record io_layer =
  enable_mpiio :: bool
  EIO :: int
  sc_MPI_ERR_IO :: int
  sc_io_error_class :: "int \<Rightarrow> int \<times> int"
  read_fault :: "nat \<Rightarrow> nat \<Rightarrow> int \<times> nat"
  write_fault :: "nat \<Rightarrow> nat \<Rightarrow> int \<times> nat"
  set_size_fault :: "nat \<Rightarrow> int"
  get_size_fault :: int
  close_fault :: int
  open_fault :: int

definition sc_MPI_SUCCESS :: int where
  "sc_MPI_SUCCESS = 0"

definition P4EST_FILE_COUNT_ERROR :: int where
  "P4EST_FILE_COUNT_ERROR = - 1"

definition P4EST_ERR_IO :: "io_layer \<Rightarrow> int" where
  "P4EST_ERR_IO io = (if enable_mpiio io then sc_MPI_ERR_IO io else EIO io)"

text \<open>
  \<open>sc_io_read_at io file offset buf count\<close> returns the error code, the number of bytes
  read and the buffer, whose first bytes are the ones read and whose other bytes are
  unchanged.
\<close>

definition sc_io_read_at :: "io_layer \<Rightarrow> string \<Rightarrow> nat \<Rightarrow> string \<Rightarrow> int \<Rightarrow> int \<times> int \<times> string" where
  "sc_io_read_at io file offset buf count =
     (let got = take (nat count - snd (read_fault io offset (nat count))) (drop offset file)
      in (fst (read_fault io offset (nat count)), int (length got), got @ drop (length got) buf))"

definition write_bytes :: "string \<Rightarrow> nat \<Rightarrow> string \<Rightarrow> string" where
  "write_bytes file offset bytes =
     (if bytes = [] then file
      else take offset file @ replicate (offset - length file) NUL @ bytes
           @ drop (offset + length bytes) file)"

text \<open>
  \<open>sc_io_write_at io file offset buf count\<close> returns the error code, the number of bytes
  written and the file.
\<close>

definition sc_io_write_at :: "io_layer \<Rightarrow> string \<Rightarrow> nat \<Rightarrow> string \<Rightarrow> int \<Rightarrow> int \<times> int \<times> string" where
  "sc_io_write_at io file offset buf count =
     (let bytes = take (nat count - snd (write_fault io offset (nat count))) buf
      in (fst (write_fault io offset (nat count)), int (length bytes),
          write_bytes file offset bytes))"

text \<open>
  The collective write: every rank passes its offset, buffer and count, and gets its own
  error code and count; the writes reach the file in rank order.
\<close>

fun sc_io_write_at_all :: "io_layer \<Rightarrow> string \<Rightarrow> (nat \<times> string \<times> int) list \<Rightarrow> (int \<times> int) list \<times> string" where
  "sc_io_write_at_all io file [] = ([], file)"
| "sc_io_write_at_all io file ((offset, buf, count) # reqs) =
     (case sc_io_write_at io file offset buf count of
        (mpiret, ocount, file') \<Rightarrow>
          (case sc_io_write_at_all io file' reqs of
             (res, file'') \<Rightarrow> ((mpiret, ocount) # res, file'')))"

definition MPI_File_set_size :: "io_layer \<Rightarrow> string \<Rightarrow> nat \<Rightarrow> int \<times> string" where
  "MPI_File_set_size io file n =
     (if set_size_fault io n \<noteq> sc_MPI_SUCCESS then (set_size_fault io n, file)
      else (sc_MPI_SUCCESS, take n file @ replicate (n - length file) NUL))"

definition MPI_File_get_size :: "io_layer \<Rightarrow> string \<Rightarrow> int \<times> int" where
  "MPI_File_get_size io file = (get_size_fault io, int (length file))"

text \<open>
  \<open>p4est_file_error_code\<close> returns its status and the value it stores through
  \<open>p4est_errcode\<close>.
\<close>

definition p4est_file_error_code :: "io_layer \<Rightarrow> int \<Rightarrow> int \<times> int" where
  "p4est_file_error_code io errcode =
     (if errcode = P4EST_FILE_COUNT_ERROR then (sc_MPI_SUCCESS, errcode)
      else sc_io_error_class io errcode)"

section \<open>The forest and its serialization (p4est\_deflate\_quadrants, p4est\_inflate)\<close>

text \<open>
  Coordinates are \<open>p4est_qcoord_t\<close> (\<open>int32_t\<close>), levels are \<open>int8_t\<close>. Global,
  local and tree indices are integers; the casts of the code between them are written
  out. A quadrant's \<open>p.user_data\<close> is the block of bytes it points to (empty for
  \<open>NULL\<close>). In two dimensions a quadrant has no \<open>z\<close>; the field is then never read
  or written.
\<close>

record p4est_quadrant =
  q_x :: "32 word"
  q_y :: "32 word"
  q_z :: "32 word"
  q_level :: "8 word"
  q_user_data :: string

record p4est_tree =
  quadrants :: "p4est_quadrant list"
  first_desc :: p4est_quadrant
  last_desc :: p4est_quadrant
  quadrants_offset :: int
  quadrants_per_level :: "int list"
  maxlevel :: "8 word"

record p4est_connectivity =
  num_trees :: int

record mpi_comm =
  comm_size :: nat
  comm_rank :: nat

record p4est =
  mpisize :: nat
  mpirank :: nat
  data_size :: nat
  user_pointer :: nat
  connectivity :: p4est_connectivity
  first_local_tree :: int
  last_local_tree :: int
  local_num_quadrants :: int
  global_num_quadrants :: int
  global_first_quadrant :: "int list"
  global_first_position :: "p4est_quadrant list"
  trees :: "p4est_tree list"
  revision :: int

record sc_array =
  elem_size :: nat
  elem_count :: nat
  array :: string

text \<open>
  What the code takes from the rest of the library: the dimension switch
  \<open>P4_TO_P8\<close>, the level bounds, the geometric helpers and the exchange that fills
  \<open>global_first_position\<close>. They are parameters of the model.
\<close>

record forest_env =
  P4_TO_P8 :: bool
  P4EST_QMAXLEVEL :: nat
  P4EST_MAXLEVEL :: nat
  p4est_quadrant_first_descendant :: "p4est_quadrant \<Rightarrow> nat \<Rightarrow> p4est_quadrant"
  p4est_quadrant_last_descendant :: "p4est_quadrant \<Rightarrow> nat \<Rightarrow> p4est_quadrant"
  p4est_comm_global_partition :: "p4est \<Rightarrow> p4est_quadrant list"

definition P4EST_DIM :: "forest_env \<Rightarrow> nat" where
  "P4EST_DIM env = (if P4_TO_P8 env then 3 else 2)"

text \<open>
  \<open>P4EST_QUADRANT_INIT\<close> leaves a quadrant unspecified (it fills it with \<open>-1\<close> in a
  debug build only); the model takes zeros.
\<close>

definition P4EST_QUADRANT_INIT :: p4est_quadrant where
  "P4EST_QUADRANT_INIT = \<lparr>q_x = 0, q_y = 0, q_z = 0, q_level = 0, q_user_data = []\<rparr>"

definition locidx_cast :: "int \<Rightarrow> int" where
  "locidx_cast g = sint (word_of_int g :: 32 word)"

subsection \<open>Deflate\<close>




subsection \<open>Inflate\<close>

text \<open>
  \<open>sc_bsearch_range\<close> is libsc's search in a monotone array \<open>base\<close> of
  \<open>nmemb + 1\<close> entries: the index \<open>i\<close> with \<open>base[i] \<le> key < base[i + 1]\<close>, or
  \<open>-1\<close> when the key is below the array (or \<open>nmemb = 0\<close>), or \<open>nmemb\<close> when it is
  not below the last entry.
\<close>

definition sc_bsearch_range :: "int \<Rightarrow> int list \<Rightarrow> nat \<Rightarrow> int" where
  "sc_bsearch_range key base nmemb =
     (if nmemb = 0 \<or> key < base ! 0 then - 1
      else if base ! nmemb \<le> key then int nmemb
      else case find (\<lambda>i. base ! i \<le> key \<and> key < base ! (i + 1)) [0..<nmemb] of
             Some i \<Rightarrow> int i
           | None \<Rightarrow> - 1)"

text \<open>
  The inner loop of \<open>p4est_inflate\<close>: \<open>n\<close> quadrants are read from \<open>qap\<close> (and
  \<open>dap\<close>), which are the parts of the arrays that the pointers have not passed.
  \<open>None\<close> is a read past the end of an array, or a level that is no index of
  \<open>quadrants_per_level\<close>.
\<close>

fun inflate_quadrants ::
  "forest_env \<Rightarrow> nat option \<Rightarrow> nat \<Rightarrow> 32 word list \<Rightarrow> string \<Rightarrow> int list \<Rightarrow> 8 word
   \<Rightarrow> (p4est_quadrant list \<times> 32 word list \<times> string \<times> int list \<times> 8 word) option" where
  "inflate_quadrants env d 0 qap dap qpl tml = Some ([], qap, dap, qpl, tml)"
| "inflate_quadrants env d (Suc n) qap dap qpl tml =
     (if length qap < P4EST_DIM env + 1 then None
      else
        let cx = qap ! 0;
            cy = qap ! 1;
            cz = (if P4_TO_P8 env then qap ! 2 else q_z P4EST_QUADRANT_INIT);
            ql = (ucast (qap ! P4EST_DIM env) :: 8 word);
            qap' = drop (P4EST_DIM env + 1) qap
        in if sint ql < 0 \<or> int (P4EST_MAXLEVEL env) < sint ql then None
           else
             case (case d of None \<Rightarrow> Some ([], dap)
                   | Some dsize \<Rightarrow> if length dap < dsize then None
                                   else Some (take dsize dap, drop dsize dap)) of
               None \<Rightarrow> None
             | Some (bytes, dap') \<Rightarrow>
                 (case inflate_quadrants env d n qap' dap'
                         (qpl[nat (sint ql) := qpl ! nat (sint ql) + 1])
                         (if sint ql < sint tml then tml else ql) of
                    None \<Rightarrow> None
                  | Some (qs, rest) \<Rightarrow>
                      Some (\<lparr>q_x = cx, q_y = cy, q_z = cz, q_level = ql,
                              q_user_data = bytes\<rparr> # qs, rest)))"

definition level_counters :: "forest_env \<Rightarrow> int list" where
  "level_counters env =
     replicate (P4EST_QMAXLEVEL env + 1) 0
     @ replicate (P4EST_MAXLEVEL env - P4EST_QMAXLEVEL env) (- 1)"

definition empty_tree :: "forest_env \<Rightarrow> nat \<Rightarrow> p4est_tree" where
  "empty_tree env zqoffset =
     \<lparr>quadrants = [], first_desc = P4EST_QUADRANT_INIT, last_desc = P4EST_QUADRANT_INIT,
      quadrants_offset = locidx_cast (int zqoffset),
      quadrants_per_level = level_counters env, maxlevel = 0\<rparr>"

text \<open>
  The loop over the trees \<open>jts\<close>, with the loop variables \<open>zqoffset\<close>,
  \<open>gquadremain\<close>, \<open>gtreeskip\<close> and the two pointers. A tree of the local range that
  gets no quadrant (\<open>zqthistree = 0\<close>) passes \<open>q = NULL\<close> to
  \<open>p4est_quadrant_last_descendant\<close>: \<open>None\<close>, as is a negative count.
\<close>

fun inflate_trees ::
  "forest_env \<Rightarrow> nat option \<Rightarrow> int \<Rightarrow> int \<Rightarrow> int list \<Rightarrow> int list \<Rightarrow> nat \<Rightarrow> int \<Rightarrow> int
   \<Rightarrow> 32 word list \<Rightarrow> string
   \<Rightarrow> (p4est_tree list \<times> nat \<times> int \<times> 32 word list \<times> string) option" where
  "inflate_trees env d flt llt pertree [] zqoffset gquadremain gtreeskip qap dap =
     Some ([], zqoffset, gquadremain, qap, dap)"
| "inflate_trees env d flt llt pertree (jt # jts) zqoffset gquadremain gtreeskip qap dap =
     (if flt \<le> jt \<and> jt \<le> llt then
        (let gtreeremain = pertree ! nat (jt + 1) - pertree ! nat jt - gtreeskip;
             zqthistree = min gtreeremain gquadremain
         in if zqthistree \<le> 0 then None
            else
              case inflate_quadrants env d (nat zqthistree) qap dap (level_counters env) 0 of
                None \<Rightarrow> None
              | Some (qs, qap', dap', qpl, tml) \<Rightarrow>
                  (case inflate_trees env d flt llt pertree jts (zqoffset + nat zqthistree)
                          (gquadremain - zqthistree) 0 qap' dap' of
                     None \<Rightarrow> None
                   | Some (ts, rest) \<Rightarrow>
                       Some (\<lparr>quadrants = qs,
                               first_desc = p4est_quadrant_first_descendant env (hd qs)
                                              (P4EST_QMAXLEVEL env),
                               last_desc = p4est_quadrant_last_descendant env (last qs)
                                             (P4EST_QMAXLEVEL env),
                               quadrants_offset = locidx_cast (int zqoffset),
                               quadrants_per_level = qpl, maxlevel = tml\<rparr> # ts, rest)))
      else
        case inflate_trees env d flt llt pertree jts zqoffset gquadremain gtreeskip qap dap of
          None \<Rightarrow> None
        | Some (ts, rest) \<Rightarrow> Some (empty_tree env zqoffset # ts, rest))"

text \<open>
  \<open>p4est_inflate_state\<close> is the function with, beside the forest, the parts of the two
  arrays that it has not read. \<open>quads\<close> is the array \<open>quadrants\<close> of
  \<open>p4est_qcoord_t\<close>; \<open>data\<close> is \<open>None\<close> for \<open>NULL\<close>. \<open>None\<close> is undefined
  behaviour or an abort: an array read outside its bounds, or a negative number of trees.
\<close>

definition p4est_inflate_state ::
  "forest_env \<Rightarrow> mpi_comm \<Rightarrow> p4est_connectivity \<Rightarrow> int list \<Rightarrow> int list \<Rightarrow> 32 word list
   \<Rightarrow> sc_array option \<Rightarrow> nat \<Rightarrow> (p4est \<times> 32 word list \<times> string) option" where
  "p4est_inflate_state env mpicomm conn gfq0 pertree quads data uptr =
     (let dsize = (case data of None \<Rightarrow> 0 | Some a \<Rightarrow> elem_size a);
          dap = (case data of None \<Rightarrow> [] | Some a \<Rightarrow> array a);
          num_procs = comm_size mpicomm;
          rank = comm_rank mpicomm
      in if num_procs \<le> rank \<or> length gfq0 < num_procs + 1 \<or> num_trees conn < 0 then None
         else
           let gfq = take (num_procs + 1) gfq0;
               lnq = locidx_cast (gfq ! (rank + 1) - gfq ! rank);
               gk1 = sc_bsearch_range (gfq ! rank) pertree (nat (num_trees conn));
               gk2 = sc_bsearch_range (gfq ! (rank + 1) - 1) pertree (nat (num_trees conn))
           in if 0 < lnq \<and> (length pertree < nat (num_trees conn) + 1
                            \<or> gk1 < 0 \<or> num_trees conn < gk1) then None
              else
                let gtreeskip = (if 0 < lnq then gfq ! rank - pertree ! nat gk1 else 0);
                    flt = (if 0 < lnq then locidx_cast gk1 else - 1);
                    llt = (if 0 < lnq then locidx_cast gk2 else - 2)
                in case inflate_trees env (map_option elem_size data) flt llt pertree
                          [0..num_trees conn - 1] 0 lnq gtreeskip quads dap of
                     None \<Rightarrow> None
                   | Some (ts, zqoffset, gquadremain, qap, dap') \<Rightarrow>
                       let p = \<lparr>mpisize = num_procs, mpirank = rank, data_size = dsize,
                                user_pointer = uptr, connectivity = conn,
                                first_local_tree = flt, last_local_tree = llt,
                                local_num_quadrants = lnq,
                                global_num_quadrants = gfq ! num_procs,
                                global_first_quadrant = gfq, global_first_position = [],
                                trees = ts, revision = 0\<rparr>
                       in Some (p\<lparr>global_first_position := p4est_comm_global_partition env p\<rparr>,
                                qap, dap'))"

definition p4est_inflate ::
  "forest_env \<Rightarrow> mpi_comm \<Rightarrow> p4est_connectivity \<Rightarrow> int list \<Rightarrow> int list \<Rightarrow> 32 word list
   \<Rightarrow> sc_array option \<Rightarrow> nat \<Rightarrow> p4est option" where
  "p4est_inflate env mpicomm conn gfq0 pertree quads data uptr =
     map_option fst (p4est_inflate_state env mpicomm conn gfq0 pertree quads data uptr)"

section \<open>The file context and the section functions\<close>

text \<open>
  The context of an open file. Its field \<open>file\<close> is the handle of the file, whose
  bytes the model passes beside the context.
\<close>

record file_context =
  fc_mpicomm :: mpi_comm
  fc_local_num_quadrants :: int
  fc_global_num_quadrants :: int
  fc_global_first_quadrant :: "int list option"
  fc_gfq_owned :: bool
  fc_num_calls :: nat
  fc_accessed_bytes :: nat

text \<open>
  What a section function leaves behind: the bytes of the file; the context (\<open>None\<close>
  once the file is closed and the context freed); whether the function returned the
  context (\<open>False\<close>: it returned \<open>NULL\<close>); the value stored through \<open>errcode\<close>;
  and the other output parameters.

  The functions are collective. The model follows one rank, the rank of the context's
  communicator; the steps that only rank 0 takes act on the file whatever this rank is,
  and values that rank 0 broadcasts are the same on every rank.
  \<open>Aborted\<close> is an abort of the program or undefined behaviour.
\<close>

record 'a fresult =
  r_file :: string
  r_fc :: "file_context option"
  r_ret :: bool
  r_errcode :: int
  r_out :: 'a

datatype 'a outcome = Aborted | Returned 'a

text \<open>
  Every error path closes the file (\<open>p4est_file_error_cleanup\<close>), frees the context
  and returns \<open>NULL\<close>.
\<close>

definition file_error :: "string \<Rightarrow> int \<Rightarrow> 'a \<Rightarrow> 'a fresult" where
  "file_error file errcode out =
     \<lparr>r_file = file, r_fc = None, r_ret = False, r_errcode = errcode, r_out = out\<rparr>"

text \<open>
  \<open>p4est_file_close\<close>: the return value, the context afterwards and \<open>errcode\<close>.
\<close>

definition p4est_file_close :: "io_layer \<Rightarrow> file_context \<Rightarrow> int \<times> file_context option \<times> int" where
  "p4est_file_close io fc =
     (if close_fault io \<noteq> 0
      then (- 1, Some fc, snd (p4est_file_error_code io (close_fault io)))
      else (0, None, snd (p4est_file_error_code io (close_fault io))))"

text \<open>
  The two writes of \<open>p4est_file_write_header\<close> that rank 0 does after the collective
  error handling: the header data and the padding. An error sends rank 0 back to the
  labels of the error handling; the result is the error code it returns with, if any,
  and the file.
\<close>

definition write_header_data :: "io_layer \<Rightarrow> string \<Rightarrow> nat \<Rightarrow> nat \<Rightarrow> string \<Rightarrow> int option \<times> string" where
  "write_header_data io file pos header_size header_data =
     (case sc_io_write_at io file pos header_data (c_int header_size) of
        (mpiret, count, file1) \<Rightarrow>
          if mpiret \<noteq> sc_MPI_SUCCESS then (Some (snd (p4est_file_error_code io mpiret)), file1)
          else if c_int header_size \<noteq> count then (Some P4EST_FILE_COUNT_ERROR, file1)
          else
            (case get_padding_string header_size P4EST_BYTE_DIV of
               (num_pad_bytes, pad) \<Rightarrow>
                 (case sc_io_write_at io file1 (pos + header_size) pad (c_int num_pad_bytes) of
                    (mpiret2, count2, file2) \<Rightarrow>
                      if mpiret2 \<noteq> sc_MPI_SUCCESS
                      then (Some (snd (p4est_file_error_code io mpiret2)), file2)
                      else if c_int num_pad_bytes \<noteq> count2
                      then (Some P4EST_FILE_COUNT_ERROR, file2)
                      else (None, file2))))"

definition p4est_file_write_header ::
  "io_layer \<Rightarrow> string \<Rightarrow> file_context \<Rightarrow> nat \<Rightarrow> string \<Rightarrow> string \<Rightarrow> unit fresult" where
  "p4est_file_write_header io file fc header_size header_data user_str =
     (if header_size = 0 then
        \<lparr>r_file = file, r_fc = Some fc, r_ret = True,
         r_errcode = snd (p4est_file_error_code io sc_MPI_SUCCESS), r_out = ()\<rparr>
      else
        case (if enable_mpiio io
              then MPI_File_set_size io file
                     (P4EST_NUM_METADATA_BYTES + P4EST_BYTE_DIV + header_size
                      + P4EST_NUM_FIELD_HEADER_BYTES + fc_accessed_bytes fc)
              else (sc_MPI_SUCCESS, file)) of
          (sret, file0) \<Rightarrow>
            if sret \<noteq> sc_MPI_SUCCESS
            then file_error file0 (snd (p4est_file_error_code io sret)) ()
            else
              case sc_io_write_at io file0
                     (fc_accessed_bytes fc + P4EST_NUM_METADATA_BYTES + P4EST_BYTE_DIV)
                     (snprintf (P4EST_NUM_FIELD_HEADER_BYTES + 1)
                        (''H '' @ printf_llu 13 header_size @ [NL]
                         @ printf_ljust 47 user_str @ [NL]))
                     (int P4EST_NUM_FIELD_HEADER_BYTES) of
                (mpiret, count, file1) \<Rightarrow>
                  if mpiret \<noteq> 0
                  then file_error file1 (snd (p4est_file_error_code io mpiret)) ()
                  else if int P4EST_NUM_FIELD_HEADER_BYTES \<noteq> count
                  then file_error file1 P4EST_FILE_COUNT_ERROR ()
                  else
                    case write_header_data io file1
                           (fc_accessed_bytes fc + P4EST_NUM_METADATA_BYTES + P4EST_BYTE_DIV
                            + P4EST_NUM_FIELD_HEADER_BYTES) header_size header_data of
                      (root_error, file2) \<Rightarrow>
                        if comm_rank (fc_mpicomm fc) = 0 \<and> root_error \<noteq> None
                        then file_error file2 (the root_error) ()
                        else
                          \<lparr>r_file = file2,
                           r_fc = Some (fc\<lparr>fc_accessed_bytes := fc_accessed_bytes fc
                                             + (header_size + P4EST_NUM_FIELD_HEADER_BYTES
                                                + fst (get_padding_string header_size
                                                         P4EST_BYTE_DIV)),
                                           fc_num_calls := fc_num_calls fc + 1\<rparr>),
                           r_ret = True,
                           r_errcode = snd (p4est_file_error_code io sc_MPI_SUCCESS),
                           r_out = ()\<rparr>)"

text \<open>
  \<open>read_block_metadata\<close>: \<open>want_user_string\<close> is \<open>user_string \<noteq> NULL\<close>; the
  outputs are \<open>read_data_size\<close> and the user string. The buffer \<open>block_metadata\<close> is
  not initialized; no byte of it is read that a checked transfer has not written.
  When rank 0 fails to read the padding, the other ranks receive its broadcast error
  value as \<open>err_flag\<close>.
\<close>

definition read_block_metadata ::
  "io_layer \<Rightarrow> string \<Rightarrow> file_context \<Rightarrow> nat \<Rightarrow> char \<Rightarrow> bool \<Rightarrow> (nat \<times> string) fresult outcome" where
  "read_block_metadata io file fc dsize block_type want_user_string =
     (let bytes_to_read = (if want_user_string then P4EST_NUM_FIELD_HEADER_BYTES
                           else P4EST_NUM_ARRAY_METADATA_BYTES + 2);
          pos = fc_accessed_bytes fc + P4EST_NUM_METADATA_BYTES + P4EST_BYTE_DIV
      in case sc_io_read_at io file pos (replicate P4EST_NUM_FIELD_HEADER_BYTES NUL)
                (int bytes_to_read) of
           (mpiret, count, bm0) \<Rightarrow>
             if mpiret \<noteq> 0
             then Returned (file_error file (snd (p4est_file_error_code io mpiret)) (0, []))
             else if int bytes_to_read \<noteq> count
             then Returned (file_error file P4EST_FILE_COUNT_ERROR (0, []))
             else if bm0 ! 0 \<noteq> block_type
             then Returned (file_error file (P4EST_ERR_IO io) (0, []))
             else if bm0 ! (P4EST_NUM_ARRAY_METADATA_BYTES + 1) \<noteq> NL
             then Returned (file_error file (P4EST_ERR_IO io) (0, []))
             else
               let bm1 = bm0[P4EST_NUM_ARRAY_METADATA_BYTES + 1 := NUL];
                   read_data_size = to_size_t (sc_atol (c_str (drop 2 bm1)))
               in if want_user_string \<and> read_data_size \<noteq> dsize
                  then Returned (file_error file (P4EST_ERR_IO io) (read_data_size, []))
                  else if want_user_string \<and> bm1 ! (P4EST_NUM_FIELD_HEADER_BYTES - 1) \<noteq> NL
                  then Returned (file_error file (P4EST_ERR_IO io) (read_data_size, []))
                  else
                    let bm2 = (if want_user_string
                               then bm1[P4EST_NUM_FIELD_HEADER_BYTES - 1 := NUL] else bm1);
                        user_str = (if want_user_string
                                    then c_str (drop (P4EST_NUM_ARRAY_METADATA_BYTES + 2) bm2)
                                    else [])
                    in if bm2 ! 0 \<noteq> CHR ''F'' \<and> bm2 ! 0 \<noteq> CHR ''H'' then Aborted
                       else
                         let data_block_size =
                               (if bm2 ! 0 = CHR ''F''
                                then size_t_mul read_data_size
                                       (to_size_t (fc_global_num_quadrants fc))
                                else read_data_size);
                             num_pad_bytes = fst (get_padding_string data_block_size P4EST_BYTE_DIV)
                         in case sc_io_read_at io file
                                   (pos + P4EST_NUM_FIELD_HEADER_BYTES + data_block_size)
                                   bm2 (c_int num_pad_bytes) of
                              (mpiret2, count2, bm3) \<Rightarrow>
                                if mpiret2 \<noteq> sc_MPI_SUCCESS
                                then Returned (file_error file
                                       (if comm_rank (fc_mpicomm fc) = 0
                                        then snd (p4est_file_error_code io mpiret2)
                                        else P4EST_ERR_IO io) (read_data_size, user_str))
                                else if c_int num_pad_bytes \<noteq> count2
                                then Returned (file_error file
                                       (if comm_rank (fc_mpicomm fc) = 0
                                        then P4EST_FILE_COUNT_ERROR
                                        else P4EST_ERR_IO io) (read_data_size, user_str))
                                else if bm3 ! 0 \<noteq> NL \<or> bm3 ! (num_pad_bytes - 1) \<noteq> NL
                                then Returned (file_error file (P4EST_ERR_IO io)
                                       (read_data_size, user_str))
                                else Returned
                                       \<lparr>r_file = file, r_fc = Some fc, r_ret = True,
                                        r_errcode = sc_MPI_SUCCESS,
                                        r_out = (read_data_size, user_str)\<rparr>)"

text \<open>
  The check of the file size that \<open>p4est_file_read_header\<close> and
  \<open>p4est_file_read_field_ext\<close> make with MPI I/O before they read \<open>wanted\<close> bytes:
  \<open>None\<close> lets the function go on, otherwise the function returns the result.
\<close>

definition check_file_size :: "io_layer \<Rightarrow> string \<Rightarrow> file_context \<Rightarrow> nat \<Rightarrow> 'a \<Rightarrow> 'a fresult option" where
  "check_file_size io file fc wanted out =
     (if \<not> enable_mpiio io then None
      else
        case MPI_File_get_size io file of
          (mpiret, sz) \<Rightarrow>
            if mpiret \<noteq> sc_MPI_SUCCESS
            then Some (file_error file (snd (p4est_file_error_code io mpiret)) out)
            else if size_t_sub (size_t_sub (size_t_sub (to_size_t sz) P4EST_NUM_METADATA_BYTES)
                                  P4EST_BYTE_DIV) P4EST_NUM_FIELD_HEADER_BYTES < wanted
            then (case p4est_file_close io fc of
                    (ret, fc', ec) \<Rightarrow>
                      Some (file_error file (snd (p4est_file_error_code io ret)) out))
            else None)"

text \<open>
  \<open>p4est_file_read_header\<close>: the two flags are \<open>header_data \<noteq> NULL\<close> and
  \<open>user_string \<noteq> NULL\<close>; the outputs are the header data and the user string.
\<close>

definition p4est_file_read_header ::
  "io_layer \<Rightarrow> string \<Rightarrow> file_context \<Rightarrow> nat \<Rightarrow> bool \<Rightarrow> bool \<Rightarrow> (string \<times> string) fresult outcome" where
  "p4est_file_read_header io file fc header_size want_header_data want_user_string =
     (let num_pad_bytes = fst (get_padding_string header_size P4EST_BYTE_DIV)
      in if \<not> want_header_data \<or> header_size = 0 then
           (case read_block_metadata io file fc 0 CHR ''H'' False of
              Aborted \<Rightarrow> Aborted
            | Returned r \<Rightarrow>
                if \<not> r_ret r
                then Returned (file_error file
                       (snd (p4est_file_error_code io (r_errcode r))) ([], []))
                else Returned
                       \<lparr>r_file = file,
                        r_fc = Some (fc\<lparr>fc_accessed_bytes := fc_accessed_bytes fc
                                          + (header_size + P4EST_NUM_FIELD_HEADER_BYTES
                                             + num_pad_bytes),
                                        fc_num_calls := fc_num_calls fc + 1\<rparr>),
                        r_ret = False,
                        r_errcode = snd (p4est_file_error_code io sc_MPI_SUCCESS),
                        r_out = ([], [])\<rparr>)
         else
           case check_file_size io file fc header_size ([], []) of
             Some r \<Rightarrow> Returned r
           | None \<Rightarrow>
               (case read_block_metadata io file fc header_size CHR ''H'' want_user_string of
                  Aborted \<Rightarrow> Aborted
                | Returned r \<Rightarrow>
                    if \<not> r_ret r
                    then Returned (file_error file
                           (snd (p4est_file_error_code io (r_errcode r))) ([], snd (r_out r)))
                    else
                      case sc_io_read_at io file
                             (fc_accessed_bytes fc + P4EST_NUM_METADATA_BYTES
                              + P4EST_NUM_FIELD_HEADER_BYTES + P4EST_BYTE_DIV)
                             [] (c_int header_size) of
                        (mpiret, count, header_data) \<Rightarrow>
                          if mpiret \<noteq> 0
                          then Returned (file_error file
                                 (snd (p4est_file_error_code io mpiret))
                                 (header_data, snd (r_out r)))
                          else if c_int header_size \<noteq> count
                          then Returned (file_error file P4EST_FILE_COUNT_ERROR
                                 (header_data, snd (r_out r)))
                          else Returned
                                 \<lparr>r_file = file,
                                  r_fc = Some (fc\<lparr>fc_accessed_bytes := fc_accessed_bytes fc
                                                    + (header_size
                                                       + P4EST_NUM_FIELD_HEADER_BYTES
                                                       + num_pad_bytes),
                                                  fc_num_calls := fc_num_calls fc + 1\<rparr>),
                                  r_ret = True,
                                  r_errcode = snd (p4est_file_error_code io sc_MPI_SUCCESS),
                                  r_out = (header_data, snd (r_out r))\<rparr>))"

text \<open>
  \<open>p4est_file_write_field\<close>: \<open>quadrant_data\<close> holds the array that each rank
  passes, by rank; this rank's array is \<open>quadrant_data ! rank\<close>, and rank 0 writes the
  section header from its own. The collective write takes every rank's offset, buffer
  and count. A missing partition (\<open>global_first_quadrant = NULL\<close>) or a partition
  with fewer entries than ranks is undefined behaviour.
\<close>

definition field_requests :: "file_context \<Rightarrow> int list \<Rightarrow> sc_array list \<Rightarrow> (nat \<times> string \<times> int) list" where
  "field_requests fc gfq quadrant_data =
     map (\<lambda>r. (fc_accessed_bytes fc
                + (P4EST_NUM_METADATA_BYTES + P4EST_BYTE_DIV
                   + size_t_mul (to_size_t (gfq ! r)) (elem_size (quadrant_data ! r)))
                + P4EST_NUM_FIELD_HEADER_BYTES,
                array (quadrant_data ! r),
                c_int (size_t_mul (elem_count (quadrant_data ! r))
                         (elem_size (quadrant_data ! r)))))
       [0..<length quadrant_data]"

definition write_field_padding :: "io_layer \<Rightarrow> string \<Rightarrow> nat \<Rightarrow> nat \<Rightarrow> int option \<times> string" where
  "write_field_padding io file pos array_size =
     (case get_padding_string array_size P4EST_BYTE_DIV of
        (num_pad_bytes, pad) \<Rightarrow>
          (case sc_io_write_at io file (pos + array_size + P4EST_NUM_FIELD_HEADER_BYTES) pad
                  (c_int num_pad_bytes) of
             (mpiret, count, file1) \<Rightarrow>
               if mpiret \<noteq> sc_MPI_SUCCESS
               then (Some (snd (p4est_file_error_code io mpiret)), file1)
               else if c_int num_pad_bytes \<noteq> count then (Some P4EST_FILE_COUNT_ERROR, file1)
               else (None, file1)))"

definition p4est_file_write_field ::
  "io_layer \<Rightarrow> string \<Rightarrow> file_context \<Rightarrow> sc_array list \<Rightarrow> string \<Rightarrow> unit fresult outcome" where
  "p4est_file_write_field io file fc quadrant_data user_str =
     (let rank = comm_rank (fc_mpicomm fc);
          esize = elem_size (quadrant_data ! rank);
          gnq = to_size_t (fc_global_num_quadrants fc)
      in if length quadrant_data \<noteq> comm_size (fc_mpicomm fc)
            \<or> comm_size (fc_mpicomm fc) \<le> rank then Aborted
         else if esize = 0 then
           Returned \<lparr>r_file = file, r_fc = Some fc, r_ret = True,
                     r_errcode = snd (p4est_file_error_code io sc_MPI_SUCCESS), r_out = ()\<rparr>
         else
           case fc_global_first_quadrant fc of
             None \<Rightarrow> Aborted
           | Some gfq \<Rightarrow>
               if length gfq < comm_size (fc_mpicomm fc) then Aborted
               else
                 case (if enable_mpiio io
                       then MPI_File_set_size io file
                              (P4EST_NUM_METADATA_BYTES + P4EST_BYTE_DIV + size_t_mul gnq esize
                               + P4EST_NUM_FIELD_HEADER_BYTES + fc_accessed_bytes fc)
                       else (sc_MPI_SUCCESS, file)) of
                   (sret, file0) \<Rightarrow>
                     if sret \<noteq> sc_MPI_SUCCESS
                     then Returned (file_error file0 (snd (p4est_file_error_code io sret)) ())
                     else
                       case sc_io_write_at io file0
                              (fc_accessed_bytes fc
                               + (P4EST_NUM_METADATA_BYTES + P4EST_BYTE_DIV
                                  + size_t_mul (to_size_t (gfq ! 0))
                                      (elem_size (quadrant_data ! 0))))
                              (snprintf (P4EST_NUM_FIELD_HEADER_BYTES + 1)
                                 (''F '' @ printf_llu 13 (elem_size (quadrant_data ! 0)) @ [NL]
                                  @ printf_ljust 47 user_str @ [NL]))
                              (int P4EST_NUM_FIELD_HEADER_BYTES) of
                         (mpiret, count, file1) \<Rightarrow>
                           if mpiret \<noteq> 0
                           then Returned (file_error file1
                                  (snd (p4est_file_error_code io mpiret)) ())
                           else if int P4EST_NUM_FIELD_HEADER_BYTES \<noteq> count
                           then Returned (file_error file1 P4EST_FILE_COUNT_ERROR ())
                           else
                             case sc_io_write_at_all io file1
                                    (field_requests fc gfq quadrant_data) of
                               (res, file2) \<Rightarrow>
                                 if fst (res ! rank) \<noteq> sc_MPI_SUCCESS
                                 then Returned (file_error file2
                                        (snd (p4est_file_error_code io (fst (res ! rank)))) ())
                                 else if list_ex (\<lambda>r. snd (snd (field_requests fc gfq quadrant_data ! r))
                                                       \<noteq> snd (res ! r))
                                           [0..<length quadrant_data]
                                 then Returned (file_error file2
                                        (if snd (snd (field_requests fc gfq quadrant_data ! rank))
                                            \<noteq> snd (res ! rank)
                                         then P4EST_FILE_COUNT_ERROR else sc_MPI_SUCCESS) ())
                                 else
                                   case write_field_padding io file2
                                          (fc_accessed_bytes fc + P4EST_NUM_METADATA_BYTES
                                           + P4EST_BYTE_DIV)
                                          (size_t_mul gnq (elem_size (quadrant_data ! 0))) of
                                     (root_error, file3) \<Rightarrow>
                                       if rank = 0 \<and> root_error \<noteq> None
                                       then Returned (file_error file3 (the root_error) ())
                                       else Returned
                                         \<lparr>r_file = file3,
                                          r_fc = Some (fc\<lparr>fc_accessed_bytes :=
                                                  fc_accessed_bytes fc
                                                  + (size_t_mul esize gnq
                                                     + P4EST_NUM_FIELD_HEADER_BYTES
                                                     + fst (get_padding_string
                                                              (size_t_mul gnq esize)
                                                              P4EST_BYTE_DIV)),
                                                fc_num_calls := fc_num_calls fc + 1\<rparr>),
                                          r_ret = True,
                                          r_errcode = snd (p4est_file_error_code io sc_MPI_SUCCESS),
                                          r_out = ()\<rparr>)"

text \<open>
  \<open>p4est_file_read_field_ext\<close>: \<open>quadrant_data\<close> is \<open>None\<close> for \<open>NULL\<close> and
  otherwise the element size of the array, the same on every rank; the outputs are the
  bytes of the resized array and the user string. Every rank reads its own part; the
  count check is the disjunction over the ranks.
\<close>

definition field_read ::
  "io_layer \<Rightarrow> string \<Rightarrow> file_context \<Rightarrow> int list \<Rightarrow> nat \<Rightarrow> nat \<Rightarrow> int \<times> int \<times> string" where
  "field_read io file fc gfq esize r =
     sc_io_read_at io file
       (fc_accessed_bytes fc + P4EST_NUM_METADATA_BYTES + P4EST_NUM_FIELD_HEADER_BYTES
        + P4EST_BYTE_DIV + size_t_mul (to_size_t (gfq ! r)) esize)
       [] (c_int (size_t_mul (to_size_t (gfq ! (r + 1) - gfq ! r)) esize))"

definition p4est_file_read_field_ext ::
  "io_layer \<Rightarrow> string \<Rightarrow> file_context \<Rightarrow> int list \<Rightarrow> nat option \<Rightarrow> bool
   \<Rightarrow> (string \<times> string) fresult outcome" where
  "p4est_file_read_field_ext io file fc gfq quadrant_data want_user_string =
     (let rank = comm_rank (fc_mpicomm fc);
          num_procs = comm_size (fc_mpicomm fc);
          gnq = to_size_t (fc_global_num_quadrants fc)
      in if quadrant_data = None \<or> quadrant_data = Some 0 then
           (case read_block_metadata io file fc 0 CHR ''F'' False of
              Aborted \<Rightarrow> Aborted
            | Returned r \<Rightarrow>
                if \<not> r_ret r
                then Returned (file_error file
                       (snd (p4est_file_error_code io (r_errcode r))) ([], []))
                else Returned
                       \<lparr>r_file = file,
                        r_fc = Some (fc\<lparr>fc_accessed_bytes := fc_accessed_bytes fc
                                          + (size_t_mul (fst (r_out r)) gnq
                                             + P4EST_NUM_FIELD_HEADER_BYTES
                                             + fst (get_padding_string
                                                      (size_t_mul gnq (fst (r_out r)))
                                                      P4EST_BYTE_DIV)),
                                        fc_num_calls := fc_num_calls fc + 1\<rparr>),
                        r_ret = False,
                        r_errcode = snd (p4est_file_error_code io sc_MPI_SUCCESS),
                        r_out = ([], [])\<rparr>)
         else if num_procs \<le> rank \<or> length gfq < num_procs + 1 then Aborted
         else
           let esize = the quadrant_data;
               bytes_to_read = size_t_mul (to_size_t (gfq ! (rank + 1) - gfq ! rank)) esize
           in case check_file_size io file fc bytes_to_read ([], []) of
                Some r \<Rightarrow> Returned r
              | None \<Rightarrow>
                  (case read_block_metadata io file fc esize CHR ''F'' want_user_string of
                     Aborted \<Rightarrow> Aborted
                   | Returned r \<Rightarrow>
                       if \<not> r_ret r
                       then Returned (file_error file
                              (snd (p4est_file_error_code io (r_errcode r)))
                              ([], snd (r_out r)))
                       else
                         case field_read io file fc gfq esize rank of
                           (mpiret, count, bytes) \<Rightarrow>
                             if mpiret \<noteq> sc_MPI_SUCCESS
                             then Returned (file_error file
                                    (snd (p4est_file_error_code io mpiret))
                                    (bytes, snd (r_out r)))
                             else if list_ex
                                       (\<lambda>k. c_int (size_t_mul
                                                     (to_size_t (gfq ! (k + 1) - gfq ! k)) esize)
                                             \<noteq> fst (snd (field_read io file fc gfq esize k)))
                                       [0..<num_procs]
                             then Returned (file_error file
                                    (if c_int bytes_to_read \<noteq> count
                                     then P4EST_FILE_COUNT_ERROR else sc_MPI_SUCCESS)
                                    (bytes, snd (r_out r)))
                             else Returned
                                    \<lparr>r_file = file,
                                     r_fc = Some (fc\<lparr>fc_accessed_bytes := fc_accessed_bytes fc
                                                       + (size_t_mul esize gnq
                                                          + P4EST_NUM_FIELD_HEADER_BYTES
                                                          + fst (get_padding_string
                                                                   (size_t_mul gnq esize)
                                                                   P4EST_BYTE_DIV)),
                                                     fc_num_calls := fc_num_calls fc + 1\<rparr>),
                                     r_ret = True,
                                     r_errcode = snd (p4est_file_error_code io sc_MPI_SUCCESS),
                                     r_out = (bytes, snd (r_out r))\<rparr>))"

text \<open>
  Modelled from the spec: \<open>p4est_comm_global_first_quadrant\<close>, of this library's
  communication module, which is not among the sources. It computes the uniform
  partition, \<open>gfq[r] = (r * N_global) / P\<close>.
\<close>

definition p4est_comm_global_first_quadrant :: "int \<Rightarrow> nat \<Rightarrow> int list" where
  "p4est_comm_global_first_quadrant gnq num_procs =
     map (\<lambda>r. (int r * gnq) div int num_procs) [0..<num_procs + 1]"

definition p4est_file_read_field ::
  "io_layer \<Rightarrow> string \<Rightarrow> file_context \<Rightarrow> nat option \<Rightarrow> bool \<Rightarrow> (string \<times> string) fresult outcome" where
  "p4est_file_read_field io file fc quadrant_data want_user_string =
     (let gfq = (case fc_global_first_quadrant fc of
                   None \<Rightarrow> p4est_comm_global_first_quadrant (fc_global_num_quadrants fc)
                             (comm_size (fc_mpicomm fc))
                 | Some g \<Rightarrow> g)
      in if quadrant_data \<noteq> None
            \<and> (comm_size (fc_mpicomm fc) \<le> comm_rank (fc_mpicomm fc)
               \<or> length gfq < comm_size (fc_mpicomm fc) + 1) then Aborted
         else
           case p4est_file_read_field_ext io file fc gfq quadrant_data want_user_string of
             Aborted \<Rightarrow> Aborted
           | Returned r \<Rightarrow>
               Returned (r\<lparr>r_errcode := snd (p4est_file_error_code io (r_errcode r))\<rparr>))"

section \<open>The scan of the sections (p4est\_file\_info)\<close>

record p4est_file_section_metadata =
  sm_block_type :: char
  sm_data_size :: nat
  sm_user_string :: string

text \<open>
  One pass through the body of the loop that rank 0 runs, from the position
  \<open>current_position\<close>, with the buffer \<open>block_metadata\<close> as the pass before left it
  and the array \<open>data_sections\<close>: the function returns from inside the loop with an
  error code, leaves the loop, or goes on. The count of the read of the padding is
  not looked at: the bytes of the buffer that the read does not reach keep their values.
\<close>

datatype info_step =
  Step_Abort
| Step_Return int "p4est_file_section_metadata list"
| Step_Break "p4est_file_section_metadata list"
| Step_Continue nat string "p4est_file_section_metadata list"

definition p4est_file_info_step ::
  "io_layer \<Rightarrow> string \<Rightarrow> int \<Rightarrow> nat \<Rightarrow> string \<Rightarrow> p4est_file_section_metadata list \<Rightarrow> info_step" where
  "p4est_file_info_step io file gnq current_position block_metadata data_sections =
     (case sc_io_read_at io file current_position block_metadata
             (int P4EST_NUM_FIELD_HEADER_BYTES) of
        (mpiret, count, bm1) \<Rightarrow>
          if fst (sc_io_error_class io mpiret) \<noteq> sc_MPI_SUCCESS then Step_Abort
          else if snd (sc_io_error_class io mpiret) \<noteq> 0
          then Step_Return
                 (snd (p4est_file_error_code io (snd (sc_io_error_class io mpiret))))
                 data_sections
          else if int P4EST_NUM_FIELD_HEADER_BYTES \<noteq> count then Step_Break data_sections
          else if bm1 ! 0 \<noteq> CHR ''H'' \<and> bm1 ! 0 \<noteq> CHR ''F'' then Step_Break data_sections
          else if bm1 ! (P4EST_NUM_ARRAY_METADATA_BYTES + 1) \<noteq> NL then Step_Break data_sections
          else
            let bm2 = bm1[P4EST_NUM_ARRAY_METADATA_BYTES + 1 := NUL];
                dsize = to_size_t (sc_atol (c_str (drop 2 bm2)))
            in if bm2 ! (P4EST_NUM_FIELD_HEADER_BYTES - 1) \<noteq> NL then Step_Break data_sections
               else
                 let bm3 = bm2[P4EST_NUM_FIELD_HEADER_BYTES - 1 := NUL];
                     current_member =
                       \<lparr>sm_block_type = bm1 ! 0, sm_data_size = dsize,
                        sm_user_string = c_str (drop (P4EST_NUM_ARRAY_METADATA_BYTES + 2) bm3)\<rparr>;
                     current_size = (if bm1 ! 0 = CHR ''F''
                                     then size_t_mul (to_size_t gnq) dsize else dsize);
                     num_pad_bytes = fst (get_padding_string current_size P4EST_BYTE_DIV)
                 in case sc_io_read_at io file
                           (current_position + P4EST_NUM_FIELD_HEADER_BYTES + current_size)
                           bm3 (c_int num_pad_bytes) of
                      (mpiret2, count2, bm4) \<Rightarrow>
                        if fst (sc_io_error_class io mpiret2) \<noteq> sc_MPI_SUCCESS then Step_Abort
                        else if snd (sc_io_error_class io mpiret2) \<noteq> 0
                        then Step_Return (snd (sc_io_error_class io mpiret2))
                               (data_sections @ [current_member])
                        else if bm4 ! 0 \<noteq> NL \<or> bm4 ! (num_pad_bytes - 1) \<noteq> NL
                        then Step_Break data_sections
                        else Step_Continue
                               (current_position
                                + (P4EST_NUM_FIELD_HEADER_BYTES + current_size + num_pad_bytes))
                               bm4 (data_sections @ [current_member]))"

text \<open>
  The loop: an error code with which the function returns \<open>-1\<close> from inside the loop,
  or none, and the array.
\<close>

function p4est_file_info_loop ::
  "io_layer \<Rightarrow> string \<Rightarrow> int \<Rightarrow> nat \<Rightarrow> string \<Rightarrow> p4est_file_section_metadata list
   \<Rightarrow> (int option \<times> p4est_file_section_metadata list) outcome" where
  "p4est_file_info_loop io file gnq current_position block_metadata data_sections =
     (case p4est_file_info_step io file gnq current_position block_metadata data_sections of
        Step_Abort \<Rightarrow> Aborted
      | Step_Return errcode secs \<Rightarrow> Returned (Some errcode, secs)
      | Step_Break secs \<Rightarrow> Returned (None, secs)
      | Step_Continue pos bm secs \<Rightarrow> p4est_file_info_loop io file gnq pos bm secs)"
  by pat_completeness auto
termination
proof (relation "measure (\<lambda>(io, file, gnq, pos, bm, secs). length file - pos)")
  show "wf (measure (\<lambda>(io, file, gnq, pos, bm, secs). length file - pos))"
    by simp
next
  fix io :: io_layer and fl :: string and gnq :: int and current_position :: nat
    and block_metadata :: string and data_sections :: "p4est_file_section_metadata list"
    and pos :: nat and bm :: string and secs :: "p4est_file_section_metadata list"
  assume step: "p4est_file_info_step io fl gnq current_position block_metadata data_sections
    = Step_Continue pos bm secs"
  obtain mpiret count bm1 where rd:
    "sc_io_read_at io fl current_position block_metadata
       (int P4EST_NUM_FIELD_HEADER_BYTES) = (mpiret, count, bm1)"
    by (cases "sc_io_read_at io fl current_position block_metadata
       (int P4EST_NUM_FIELD_HEADER_BYTES)") auto
  from step rd have full: "int P4EST_NUM_FIELD_HEADER_BYTES = count"
    by (auto simp: p4est_file_info_step_def Let_def split: if_splits prod.splits)
  from rd have "count \<le> int (length fl - current_position)"
    by (auto simp: sc_io_read_at_def Let_def)
  with full have inside: "current_position < length fl"
    by (simp add: P4EST_NUM_FIELD_HEADER_BYTES_def P4EST_NUM_ARRAY_METADATA_BYTES_def
        P4EST_NUM_USER_STRING_BYTES_def)
  from step rd have "current_position < pos"
    by (auto simp: p4est_file_info_step_def Let_def P4EST_NUM_FIELD_HEADER_BYTES_def
        P4EST_NUM_ARRAY_METADATA_BYTES_def P4EST_NUM_USER_STRING_BYTES_def
        split: if_splits prod.splits)
  with inside show "((io, fl, gnq, pos, bm, secs),
      (io, fl, gnq, current_position, block_metadata, data_sections))
    \<in> measure (\<lambda>(io, file, gnq, pos, bm, secs). length file - pos)"
    by simp
qed

declare p4est_file_info_loop.simps [simp del]

text \<open>
  \<open>p4est_file_info\<close>, as rank 0 runs it: the return value, \<open>errcode\<close>, the user
  string of the file and the array. \<open>check_file_metadata\<close> is a parameter, because
  it reads the file header through the constants \<open>P4EST_NUM_MAGIC_BYTES\<close>,
  \<open>P4EST_NUM_VERSION_STR_BYTES\<close> and \<open>P4EST_MAGIC_NUMBER\<close>, which the header does
  not define; it takes the bytes of the file header and returns its status, the user
  string and the number of global quadrants of the file.
\<close>

definition p4est_file_info ::
  "io_layer \<Rightarrow> (string \<Rightarrow> int \<times> string \<times> int) \<Rightarrow> p4est \<Rightarrow> string
   \<Rightarrow> (int \<times> int \<times> string \<times> p4est_file_section_metadata list) outcome" where
  "p4est_file_info io check_file_metadata p4est file =
     (if open_fault io \<noteq> sc_MPI_SUCCESS
         \<and> fst (sc_io_error_class io (open_fault io)) \<noteq> sc_MPI_SUCCESS then Aborted
      else if open_fault io \<noteq> sc_MPI_SUCCESS \<and> snd (sc_io_error_class io (open_fault io)) \<noteq> 0
      then Returned (- 1, snd (p4est_file_error_code io
                                 (snd (sc_io_error_class io (open_fault io)))), [], [])
      else
        case sc_io_read_at io file 0 (replicate (P4EST_NUM_METADATA_BYTES + 1) NUL)
               (int P4EST_NUM_METADATA_BYTES) of
          (retval, count, metadata) \<Rightarrow>
            if retval \<noteq> sc_MPI_SUCCESS \<and> fst (sc_io_error_class io retval) \<noteq> sc_MPI_SUCCESS
            then Aborted
            else if retval \<noteq> sc_MPI_SUCCESS \<and> snd (sc_io_error_class io retval) \<noteq> 0
            then Returned (- 1, snd (p4est_file_error_code io
                                       (snd (sc_io_error_class io retval))), [], [])
            else if retval = sc_MPI_SUCCESS \<and> int P4EST_NUM_METADATA_BYTES \<noteq> count
            then Returned (- 1, P4EST_FILE_COUNT_ERROR, [], [])
            else
              case check_file_metadata (metadata[P4EST_NUM_METADATA_BYTES := NUL]) of
                (mret, user_str, file_gnq) \<Rightarrow>
                  if mret \<noteq> sc_MPI_SUCCESS
                  then Returned (- 1, snd (p4est_file_error_code io (P4EST_ERR_IO io)),
                                 user_str, [])
                  else if global_num_quadrants p4est \<noteq> file_gnq
                  then Returned (- 1, snd (p4est_file_error_code io (P4EST_ERR_IO io)),
                                 user_str, [])
                  else
                    (case p4est_file_info_loop io file (global_num_quadrants p4est)
                            (P4EST_NUM_METADATA_BYTES + P4EST_BYTE_DIV)
                            (replicate (P4EST_NUM_FIELD_HEADER_BYTES + 1) NUL) [] of
                       Aborted \<Rightarrow> Aborted
                     | Returned res \<Rightarrow>
                         if fst res \<noteq> None
                         then Returned (- 1, the (fst res), user_str, snd res)
                         else if close_fault io \<noteq> sc_MPI_SUCCESS
                                 \<and> fst (sc_io_error_class io (close_fault io)) \<noteq> sc_MPI_SUCCESS
                         then Aborted
                         else Returned
                                (0,
                                 snd (p4est_file_error_code io
                                        (if close_fault io \<noteq> sc_MPI_SUCCESS
                                         then snd (sc_io_error_class io (close_fault io))
                                         else sc_MPI_SUCCESS)),
                                 user_str, snd res)))"

section \<open>Predicates and examples for the statements\<close>


text \<open>
  A layer without MPI I/O and without faults, whose error classes are the error codes;
  a context on one rank, as \<open>p4est_file_open_create\<close> leaves it for a forest without
  quadrants; and a file prelude of 80 bytes.
\<close>

definition io_ex :: io_layer where
  "io_ex = \<lparr>enable_mpiio = False, EIO = 5, sc_MPI_ERR_IO = 32,
            sc_io_error_class = (\<lambda>c. (0, c)),
            read_fault = (\<lambda>off n. (0, 0)), write_fault = (\<lambda>off n. (0, 0)),
            set_size_fault = (\<lambda>n. 0), get_size_fault = 0, close_fault = 0,
            open_fault = 0\<rparr>"

definition fc_ex :: file_context where
  "fc_ex = \<lparr>fc_mpicomm = \<lparr>comm_size = 1, comm_rank = 0\<rparr>, fc_local_num_quadrants = 0,
            fc_global_num_quadrants = 0, fc_global_first_quadrant = Some [0, 0],
            fc_gfq_owned = True, fc_num_calls = 0, fc_accessed_bytes = 0\<rparr>"

definition prelude_ex :: string where
  "prelude_ex = replicate 80 CHR ''.''"

text \<open>
  Three files: the prelude and a header block of 20 bytes; the same and a second header
  block of 5 bytes; and the prelude and a header block of 15 bytes whose user string
  starts with a newline, without the last byte of the file, so that the padding of 17
  bytes is cut to 16. \<open>p4est_file_write_header\<close> writes these sections
  (\<open>example_files_written\<close>).
\<close>

definition file_h20 :: string where
  "file_h20 =
     prelude_ex @ ''H 0000000000020'' @ [NL] @ ''first'' @ replicate 42 CHR '' '' @ [NL]
     @ replicate 20 CHR ''a'' @ [NL] @ replicate 10 CHR '' '' @ [NL]"

definition file_h20_h5 :: string where
  "file_h20_h5 =
     file_h20 @ ''H 0000000000005'' @ [NL] @ ''second'' @ replicate 41 CHR '' '' @ [NL]
     @ ''hello'' @ [NL] @ replicate 9 CHR '' '' @ [NL]"

definition file_h15 :: string where
  "file_h15 =
     prelude_ex @ ''H 0000000000015'' @ [NL] @ [NL] @ ''abc'' @ replicate 43 CHR '' '' @ [NL]
     @ replicate 15 CHR ''a'' @ [NL] @ replicate 15 CHR '' '' @ [NL]"

definition file_trunc :: string where
  "file_trunc = butlast file_h15"

definition p4est_ex :: p4est where
  "p4est_ex = \<lparr>mpisize = 1, mpirank = 0, data_size = 0, user_pointer = 0,
               connectivity = \<lparr>num_trees = 0\<rparr>, first_local_tree = - 1,
               last_local_tree = - 2, local_num_quadrants = 0, global_num_quadrants = 0,
               global_first_quadrant = [0, 0], global_first_position = [], trees = [],
               revision = 0\<rparr>"

text \<open>
  The error codes that the calls of a layer return, other than success, and the classes
  that the layer gives them.
\<close>

definition io_codes :: "io_layer \<Rightarrow> int set" where
  "io_codes io =
     {c. c \<noteq> sc_MPI_SUCCESS
         \<and> ((\<exists>off n. fst (read_fault io off n) = c) \<or> (\<exists>off n. fst (write_fault io off n) = c)
            \<or> (\<exists>n. set_size_fault io n = c) \<or> get_size_fault io = c \<or> close_fault io = c
            \<or> open_fault io = c)}"

definition io_classes :: "io_layer \<Rightarrow> int set" where
  "io_classes io = (\<lambda>c. snd (sc_io_error_class io c)) ` io_codes io"

text \<open>The layer of the examples, with a device on which every read fails with \<open>EIO\<close>.\<close>

definition io_eio :: io_layer where
  "io_eio = io_ex\<lparr>read_fault := (\<lambda>off n. (EIO io_ex, n))\<rparr>"


section \<open>Notions for the statements about the forest\<close>





text \<open>
  An environment in three dimensions with the level bounds of the library and its two
  geometric helpers, and one in two dimensions.
\<close>

definition env_ex :: forest_env where
  "env_ex = \<lparr>P4_TO_P8 = True, P4EST_QMAXLEVEL = 18, P4EST_MAXLEVEL = 19,
             p4est_quadrant_first_descendant = (\<lambda>q l. q\<lparr>q_level := of_nat l, q_user_data := []\<rparr>),
             p4est_quadrant_last_descendant =
               (\<lambda>q l. q\<lparr>q_x := q_x q + (push_bit (19 - unat (q_level q)) 1 - push_bit (19 - l) 1),
                        q_y := q_y q + (push_bit (19 - unat (q_level q)) 1 - push_bit (19 - l) 1),
                        q_z := q_z q + (push_bit (19 - unat (q_level q)) 1 - push_bit (19 - l) 1),
                        q_level := of_nat l, q_user_data := []\<rparr>),
             p4est_comm_global_partition = (\<lambda>p. [])\<rparr>"

definition env2_ex :: forest_env where
  "env2_ex = env_ex\<lparr>P4_TO_P8 := False, P4EST_QMAXLEVEL := 29, P4EST_MAXLEVEL := 30\<rparr>"






section \<open>Notions for the statements about field sections\<close>












section \<open>Notions for the round trip of deflate and inflate\<close>






section \<open>Properties of the padding\<close>

lemma pad_len_eq: "pad_len L = padding_count L 16"
  by (simp add: pad_len_def get_padding_string_def P4EST_BYTE_DIV_def Let_def)

lemma pad_len_cases:
  "pad_len L = (if L mod 16 = 0 then 16 else if L mod 16 = 15 then 17 else 16 - L mod 16)"
proof -
  define r where "r = L mod 16"
  have r: "r < 16" by (simp add: r_def)
  have "padding_count L 16 = (if r = 0 then 16 else if r = 15 then 17 else 16 - r)"
  proof (cases "r = 0")
    case True
    then show ?thesis by (simp add: padding_count_def r_def [symmetric])
  next
    case False
    with r have "(16 - r) mod 16 = 16 - r" by simp
    with False r show ?thesis
      by (simp add: padding_count_def r_def [symmetric] Let_def) arith
  qed
  then show ?thesis by (simp add: pad_len_eq r_def)
qed

lemma pad_len_ge2: "2 \<le> pad_len L"
  unfolding pad_len_cases using mod_less_divisor [of 16 L] by (auto simp del: mod_less_divisor)

lemma pad_len_le17: "pad_len L \<le> 17"
  unfolding pad_len_cases by auto

lemma pad_len_aligned: "(L + pad_len L) mod 16 = 0"
proof -
  define r where "r = L mod 16"
  have r: "r < 16" by (simp add: r_def)
  have "(L + pad_len L) mod 16 = (r + pad_len L) mod 16"
    unfolding r_def by (simp add: mod_add_left_eq)
  also have "\<dots> = 0"
    using r unfolding pad_len_cases r_def [symmetric] by (cases "r = 15") auto
  finally show ?thesis .
qed

lemma pad_len_least:
  assumes "2 \<le> p" and "(L + p) mod 16 = 0"
  shows "pad_len L \<le> p"
proof -
  define r where "r = L mod 16"
  have r: "r < 16" by (simp add: r_def)
  have "(L + p) mod 16 = (r + p) mod 16"
    unfolding r_def by (simp add: mod_add_left_eq)
  with assms have z: "(r + p) mod 16 = 0" by simp
  then have d: "16 dvd r + p" by (simp add: dvd_eq_mod_eq_0)
  then obtain k where k: "r + p = 16 * k" by (auto simp: dvd_def)
  show ?thesis
  proof (cases "r = 0")
    case True
    with k assms(1) have "16 \<le> p" by (cases k) auto
    with True show ?thesis by (simp add: pad_len_cases r_def [symmetric])
  next
    case False
    show ?thesis
    proof (cases "r = 15")
      case True
      with k assms(1) have "17 \<le> p" by (cases k; cases "k - 1") auto
      with True show ?thesis by (simp add: pad_len_cases r_def [symmetric])
    next
      case F2: False
      from k False assms(1) have "16 \<le> r + p" by (cases k) auto
      with False F2 show ?thesis by (simp add: pad_len_cases r_def [symmetric])
    qed
  qed
qed

lemma pad_bytes_eq:
  "pad_bytes L = CHR 0x0A # replicate (pad_len L - 2) CHR '' '' @ [CHR 0x0A]"
  using pad_len_ge2 [of L]
  by (simp add: pad_bytes_def pad_len_def get_padding_string_def snprintf_def
      pad_format_def Let_def)

text \<open>
  C3. For every byte count \<open>L\<close>, the padding length lies in \<open>[2, 17]\<close>, makes
  \<open>L\<close> plus padding a multiple of 16, is the smallest length of at least 2 doing so,
  and the padding string is a newline, \<open>pad_len L - 2\<close> spaces and a newline.
\<close>

theorem padding_codec:
  "2 \<le> pad_len L \<and> pad_len L \<le> 17 \<and> (L + pad_len L) mod 16 = 0
   \<and> (\<forall>p. 2 \<le> p \<and> (L + p) mod 16 = 0 \<longrightarrow> pad_len L \<le> p)
   \<and> pad_bytes L = CHR 0x0A # replicate (pad_len L - 2) CHR '' '' @ [CHR 0x0A]
   \<and> length (pad_bytes L) = pad_len L"
  using pad_len_ge2 [of L] pad_len_le17 [of L] pad_len_aligned [of L] pad_len_least [of _ L]
    pad_bytes_eq [of L]
  by simp

theorem padding_codec_witness:
  "2 \<le> (11::nat) \<and> (5 + 11) mod 16 = (0::nat) \<and> pad_len 5 = 11 \<and> pad_len 5 \<le> 11
   \<and> (5 + pad_len 5) mod 16 = 0
   \<and> pad_bytes 5 = CHR 0x0A # replicate 9 CHR '' '' @ [CHR 0x0A]"
  using padding_codec [of 5] by (simp add: pad_len_cases)

section \<open>Integer conversions\<close>




lemma get_padding_string_fst: "fst (get_padding_string L P4EST_BYTE_DIV) = pad_len L"
  by (simp add: pad_len_def)

section \<open>Calls with size zero\<close>

lemma read_header_zero_size:
  assumes ok: "sc_io_error_class io sc_MPI_SUCCESS = (sc_MPI_SUCCESS, sc_MPI_SUCCESS)"
    and ret: "p4est_file_read_header io file fc 0 want_data want_user = Returned r"
    and alive: "r_fc r \<noteq> None"
  shows "\<not> r_ret r \<and> r_errcode r = sc_MPI_SUCCESS \<and> r_file r = file
    \<and> (\<exists>fc'. r_fc r = Some fc' \<and> fc_num_calls fc' = fc_num_calls fc + 1
          \<and> fc_accessed_bytes fc < fc_accessed_bytes fc')"
proof (cases "read_block_metadata io file fc 0 CHR ''H'' False")
  case Aborted
  with ret show ?thesis by (simp add: p4est_file_read_header_def)
next
  case (Returned r0)
  show ?thesis
  proof (cases "r_ret r0")
    case False
    with Returned ret alive show ?thesis
      by (auto simp: p4est_file_read_header_def file_error_def)
  next
    case True
    with Returned ret have "r = \<lparr>r_file = file,
        r_fc = Some (fc\<lparr>fc_accessed_bytes := fc_accessed_bytes fc
                          + (0 + P4EST_NUM_FIELD_HEADER_BYTES
                             + fst (get_padding_string 0 P4EST_BYTE_DIV)),
                        fc_num_calls := fc_num_calls fc + 1\<rparr>),
        r_ret = False, r_errcode = snd (p4est_file_error_code io sc_MPI_SUCCESS),
        r_out = ([], [])\<rparr>"
      by (simp add: p4est_file_read_header_def)
    with ok show ?thesis
      by (simp add: p4est_file_error_code_def sc_MPI_SUCCESS_def P4EST_FILE_COUNT_ERROR_def
          P4EST_NUM_FIELD_HEADER_BYTES_def)
  qed
qed

text \<open>
  C6, amended. With a layer for which success is its own class:
  \<open>p4est_file_write_header\<close> with \<open>header_size = 0\<close> and
  \<open>p4est_file_write_field\<close> with an element size of 0 set \<open>errcode\<close> to success,
  return the context, and leave the file and the context as they are.
  \<open>p4est_file_read_header\<close> with \<open>header_size = 0\<close> is no such call: it reads the
  metadata of the section, and where it leaves the context open it returns \<open>NULL\<close>
  with \<open>errcode\<close> success, one more call counted and the cursor moved forward.
\<close>

theorem zero_size_calls:
  assumes "sc_io_error_class io sc_MPI_SUCCESS = (sc_MPI_SUCCESS, sc_MPI_SUCCESS)"
  shows "p4est_file_write_header io file fc 0 header_data user_str
           = \<lparr>r_file = file, r_fc = Some fc, r_ret = True, r_errcode = sc_MPI_SUCCESS,
              r_out = ()\<rparr>
     \<and> (length quadrant_data = comm_size (fc_mpicomm fc)
          \<and> comm_rank (fc_mpicomm fc) < comm_size (fc_mpicomm fc)
          \<and> elem_size (quadrant_data ! comm_rank (fc_mpicomm fc)) = 0
        \<longrightarrow> p4est_file_write_field io file fc quadrant_data user_str
              = Returned \<lparr>r_file = file, r_fc = Some fc, r_ret = True,
                          r_errcode = sc_MPI_SUCCESS, r_out = ()\<rparr>)
     \<and> (\<forall>r. p4est_file_read_header io file fc 0 want_data want_user = Returned r
              \<and> r_fc r \<noteq> None
          \<longrightarrow> \<not> r_ret r \<and> r_errcode r = sc_MPI_SUCCESS \<and> r_file r = file
              \<and> (\<exists>fc'. r_fc r = Some fc' \<and> fc_num_calls fc' = fc_num_calls fc + 1
                    \<and> fc_accessed_bytes fc < fc_accessed_bytes fc'))"
proof -
  have cls: "snd (p4est_file_error_code io sc_MPI_SUCCESS) = sc_MPI_SUCCESS"
    using assms
    by (simp add: p4est_file_error_code_def sc_MPI_SUCCESS_def P4EST_FILE_COUNT_ERROR_def)
  have a: "p4est_file_write_header io file fc 0 header_data user_str
           = \<lparr>r_file = file, r_fc = Some fc, r_ret = True, r_errcode = sc_MPI_SUCCESS,
              r_out = ()\<rparr>"
    by (simp add: p4est_file_write_header_def cls)
  have b: "length quadrant_data = comm_size (fc_mpicomm fc)
          \<and> comm_rank (fc_mpicomm fc) < comm_size (fc_mpicomm fc)
          \<and> elem_size (quadrant_data ! comm_rank (fc_mpicomm fc)) = 0
        \<longrightarrow> p4est_file_write_field io file fc quadrant_data user_str
          = Returned \<lparr>r_file = file, r_fc = Some fc, r_ret = True,
                      r_errcode = sc_MPI_SUCCESS, r_out = ()\<rparr>"
    by (simp add: p4est_file_write_field_def cls Let_def)
  show ?thesis
    using a b read_header_zero_size [OF assms] by blast
qed

theorem zero_size_calls_witness:
  "sc_io_error_class io_ex sc_MPI_SUCCESS = (sc_MPI_SUCCESS, sc_MPI_SUCCESS)
   \<and> p4est_file_write_header io_ex file_h20 fc_ex 0 [] []
       = \<lparr>r_file = file_h20, r_fc = Some fc_ex, r_ret = True, r_errcode = sc_MPI_SUCCESS,
          r_out = ()\<rparr>
   \<and> length [\<lparr>elem_size = 0, elem_count = 0, array = []\<rparr>] = comm_size (fc_mpicomm fc_ex)
   \<and> comm_rank (fc_mpicomm fc_ex) < comm_size (fc_mpicomm fc_ex)
   \<and> elem_size ([\<lparr>elem_size = 0, elem_count = 0, array = []\<rparr>] ! comm_rank (fc_mpicomm fc_ex)) = 0
   \<and> p4est_file_write_field io_ex file_h20 fc_ex [\<lparr>elem_size = 0, elem_count = 0, array = []\<rparr>] []
       = Returned \<lparr>r_file = file_h20, r_fc = Some fc_ex, r_ret = True,
                   r_errcode = sc_MPI_SUCCESS, r_out = ()\<rparr>
   \<and> p4est_file_read_header io_ex file_h20 fc_ex 0 True True
       = Returned \<lparr>r_file = file_h20,
                   r_fc = Some (fc_ex\<lparr>fc_accessed_bytes := 80, fc_num_calls := 1\<rparr>),
                   r_ret = False, r_errcode = sc_MPI_SUCCESS, r_out = ([], [])\<rparr>
   \<and> fc_num_calls (fc_ex\<lparr>fc_accessed_bytes := 80, fc_num_calls := 1\<rparr>)
       = fc_num_calls fc_ex + 1
   \<and> fc_accessed_bytes fc_ex < fc_accessed_bytes (fc_ex\<lparr>fc_accessed_bytes := 80, fc_num_calls := 1\<rparr>)"
proof -
  have h: "sc_io_error_class io_ex sc_MPI_SUCCESS = (sc_MPI_SUCCESS, sc_MPI_SUCCESS)"
    by (simp add: io_ex_def sc_MPI_SUCCESS_def)
  have q: "length [\<lparr>elem_size = 0, elem_count = 0, array = []\<rparr>] = comm_size (fc_mpicomm fc_ex)
      \<and> comm_rank (fc_mpicomm fc_ex) < comm_size (fc_mpicomm fc_ex)
      \<and> elem_size ([\<lparr>elem_size = 0, elem_count = 0, array = []\<rparr>] ! comm_rank (fc_mpicomm fc_ex)) = 0"
    by (simp add: fc_ex_def)
  have rd: "p4est_file_read_header io_ex file_h20 fc_ex 0 True True
       = Returned \<lparr>r_file = file_h20,
                   r_fc = Some (fc_ex\<lparr>fc_accessed_bytes := 80, fc_num_calls := 1\<rparr>),
                   r_ret = False, r_errcode = sc_MPI_SUCCESS, r_out = ([], [])\<rparr>"
    by code_simp
  note t = zero_size_calls [of io_ex file_h20 fc_ex "[]" "[]"
      "[\<lparr>elem_size = 0, elem_count = 0, array = []\<rparr>]" True True, OF h]
  from t have a: "p4est_file_write_header io_ex file_h20 fc_ex 0 [] []
       = \<lparr>r_file = file_h20, r_fc = Some fc_ex, r_ret = True, r_errcode = sc_MPI_SUCCESS,
          r_out = ()\<rparr>"
    by blast
  from t q have b: "p4est_file_write_field io_ex file_h20 fc_ex
        [\<lparr>elem_size = 0, elem_count = 0, array = []\<rparr>] []
       = Returned \<lparr>r_file = file_h20, r_fc = Some fc_ex, r_ret = True,
                   r_errcode = sc_MPI_SUCCESS, r_out = ()\<rparr>"
    by blast
  from t rd have c: "fc_num_calls (fc_ex\<lparr>fc_accessed_bytes := 80, fc_num_calls := 1\<rparr>)
       = fc_num_calls fc_ex + 1
     \<and> fc_accessed_bytes fc_ex < fc_accessed_bytes (fc_ex\<lparr>fc_accessed_bytes := 80, fc_num_calls := 1\<rparr>)"
    by auto
  from h q rd a b c show ?thesis by blast
qed

text \<open>
  The claim as stated fails for \<open>p4est_file_read_header\<close>: with \<open>header_size = 0\<close> on
  the file with one header block, a context with no call counted and the cursor at 0
  comes back with one call counted and the cursor at 80.
\<close>

theorem read_header_zero_size_counterexample:
  "p4est_file_read_header io_ex file_h20 fc_ex 0 True True
     = Returned \<lparr>r_file = file_h20,
                 r_fc = Some (fc_ex\<lparr>fc_accessed_bytes := 80, fc_num_calls := 1\<rparr>),
                 r_ret = False, r_errcode = 0, r_out = ([], [])\<rparr>
   \<and> fc_accessed_bytes fc_ex = 0 \<and> fc_num_calls fc_ex = 0"
  by code_simp

section \<open>The example files\<close>

lemma example_files_written:
  "p4est_file_write_header io_ex prelude_ex fc_ex 20 (replicate 20 CHR ''a'') ''first''
     = \<lparr>r_file = file_h20,
        r_fc = Some (fc_ex\<lparr>fc_accessed_bytes := 96, fc_num_calls := 1\<rparr>),
        r_ret = True, r_errcode = 0, r_out = ()\<rparr>"
  "p4est_file_write_header io_ex file_h20
       (fc_ex\<lparr>fc_accessed_bytes := 96, fc_num_calls := 1\<rparr>) 5 ''hello'' ''second''
     = \<lparr>r_file = file_h20_h5,
        r_fc = Some (fc_ex\<lparr>fc_accessed_bytes := 176, fc_num_calls := 2\<rparr>),
        r_ret = True, r_errcode = 0, r_out = ()\<rparr>"
  "p4est_file_write_header io_ex prelude_ex fc_ex 15 (replicate 15 CHR ''a'') (NL # ''abc'')
     = \<lparr>r_file = file_h15,
        r_fc = Some (fc_ex\<lparr>fc_accessed_bytes := 96, fc_num_calls := 1\<rparr>),
        r_ret = True, r_errcode = 0, r_out = ()\<rparr>"
  by code_simp+

section \<open>The cursor on the skip path of p4est\_file\_read\_header\<close>

lemma write_header_cursor:
  assumes "r_fc (p4est_file_write_header io file fc header_size header_data user_str) = Some fc'"
    and "0 < header_size"
  shows "fc_accessed_bytes fc' = fc_accessed_bytes fc + (64 + header_size + pad_len header_size)
    \<and> fc_num_calls fc' = fc_num_calls fc + 1"
  using assms
  by (auto simp: p4est_file_write_header_def file_error_def pad_len_def
      P4EST_NUM_FIELD_HEADER_BYTES_def P4EST_NUM_ARRAY_METADATA_BYTES_def
      P4EST_NUM_USER_STRING_BYTES_def split: prod.splits if_splits)

text \<open>
  The skip path of \<open>p4est_file_read_field_ext\<close> moves the cursor by the size that the
  section header stores (\<open>read_data_size\<close>).
\<close>

lemma read_field_skip_cursor:
  assumes "p4est_file_read_field_ext io file fc gfq None want_user = Returned r"
    and "r_fc r = Some fc'"
    and "read_block_metadata io file fc 0 CHR ''F'' False = Returned r0"
  shows "fc_accessed_bytes fc' = fc_accessed_bytes fc
      + (size_t_mul (fst (r_out r0)) (to_size_t (fc_global_num_quadrants fc)) + 64
         + pad_len (size_t_mul (to_size_t (fc_global_num_quadrants fc)) (fst (r_out r0))))"
  using assms
  by (auto simp: p4est_file_read_field_ext_def file_error_def pad_len_def Let_def
      P4EST_NUM_FIELD_HEADER_BYTES_def P4EST_NUM_ARRAY_METADATA_BYTES_def
      P4EST_NUM_USER_STRING_BYTES_def split: if_splits)

text \<open>
  The skip path of \<open>p4est_file_read_header\<close> moves the cursor by the size that the
  caller passes, whatever the section header stores.
\<close>

lemma read_header_skip_advance:
  assumes "p4est_file_read_header io file fc header_size False want_user = Returned r"
    and "r_fc r = Some fc'"
  shows "fc_accessed_bytes fc' = fc_accessed_bytes fc + (64 + header_size + pad_len header_size)"
  using assms
  by (auto simp: p4est_file_read_header_def file_error_def pad_len_def Let_def
      P4EST_NUM_FIELD_HEADER_BYTES_def P4EST_NUM_ARRAY_METADATA_BYTES_def
      P4EST_NUM_USER_STRING_BYTES_def split: if_splits outcome.splits)

text \<open>
  C2, at the input where the code departs from it. The file holds one header block
  whose header stores a size of 20 bytes, so the section has \<open>64 + 20 + 12 = 96\<close>
  bytes and the file \<open>80 + 96\<close>. \<open>p4est_file_read_header\<close> with
  \<open>header_data = NULL\<close> and \<open>header_size = 0\<close> succeeds and moves the cursor from 0
  to 80.
\<close>

theorem read_header_skip_cursor:
  "read_block_metadata io_ex file_h20 fc_ex 0 CHR ''H'' False
     = Returned \<lparr>r_file = file_h20, r_fc = Some fc_ex, r_ret = True, r_errcode = 0,
                 r_out = (20, [])\<rparr>
   \<and> p4est_file_read_header io_ex file_h20 fc_ex 0 False False
       = Returned \<lparr>r_file = file_h20,
                   r_fc = Some (fc_ex\<lparr>fc_accessed_bytes := 80, fc_num_calls := 1\<rparr>),
                   r_ret = False, r_errcode = 0, r_out = ([], [])\<rparr>
   \<and> fc_accessed_bytes fc_ex = 0
   \<and> 64 + 20 + pad_len 20 = 96
   \<and> length file_h20 = 80 + 96"
  by code_simp

section \<open>A skip that returns NULL\<close>

text \<open>
  Where a skip leaves the context open, it returns \<open>NULL\<close> and sets \<open>errcode\<close> to
  the class of success.
\<close>

lemma read_header_skip_null:
  assumes "p4est_file_read_header io file fc header_size want_data want_user = Returned r"
    and "\<not> want_data \<or> header_size = 0"
    and "r_fc r \<noteq> None"
  shows "\<not> r_ret r \<and> r_errcode r = snd (p4est_file_error_code io sc_MPI_SUCCESS)
    \<and> r_file r = file"
  using assms
  by (auto simp: p4est_file_read_header_def file_error_def Let_def
      split: if_splits outcome.splits)

lemma read_field_skip_null:
  assumes "p4est_file_read_field_ext io file fc gfq quadrant_data want_user = Returned r"
    and "quadrant_data = None \<or> quadrant_data = Some 0"
    and "r_fc r \<noteq> None"
  shows "\<not> r_ret r \<and> r_errcode r = snd (p4est_file_error_code io sc_MPI_SUCCESS)
    \<and> r_file r = file"
  using assms
  by (auto simp: p4est_file_read_field_ext_def file_error_def Let_def
      split: if_splits outcome.splits)

text \<open>
  C10, at the input where the code departs from it. The file holds a header block of
  20 bytes and one of 5 bytes. The skip of the first block with \<open>header_size = 0\<close>
  returns \<open>NULL\<close> with \<open>errcode\<close> success and the context open, with the cursor at
  80, inside the first section, which ends at 96: the read of the second block with that
  context fails with the format error, and succeeds from 96.
\<close>

theorem skip_cursor_inside_section:
  "p4est_file_read_header io_ex file_h20_h5 fc_ex 0 False False
     = Returned \<lparr>r_file = file_h20_h5,
                 r_fc = Some (fc_ex\<lparr>fc_accessed_bytes := 80, fc_num_calls := 1\<rparr>),
                 r_ret = False, r_errcode = 0, r_out = ([], [])\<rparr>
   \<and> p4est_file_read_header io_ex file_h20_h5
         (fc_ex\<lparr>fc_accessed_bytes := 80, fc_num_calls := 1\<rparr>) 5 True True
       = Returned \<lparr>r_file = file_h20_h5, r_fc = None, r_ret = False,
                   r_errcode = P4EST_ERR_IO io_ex, r_out = ([], [])\<rparr>
   \<and> p4est_file_read_header io_ex file_h20_h5
         (fc_ex\<lparr>fc_accessed_bytes := 96, fc_num_calls := 1\<rparr>) 5 True True
       = Returned \<lparr>r_file = file_h20_h5,
                   r_fc = Some (fc_ex\<lparr>fc_accessed_bytes := 176, fc_num_calls := 2\<rparr>),
                   r_ret = True, r_errcode = 0,
                   r_out = (''hello'', printf_ljust 47 ''second'')\<rparr>"
  by code_simp

section \<open>The scan of a file that ends inside a padding\<close>

text \<open>
  C7, at the input where the code departs from it. The file holds one header block of
  15 bytes, whose section has \<open>64 + 15 + 17\<close> bytes, and lacks the last byte of the
  padding. The read of the padding returns 16 bytes; the last byte that the loop checks
  is the byte that the buffer kept from the section header, the first byte of the user
  string, a newline. The scan returns success and keeps the entry of the cut section.
\<close>

theorem info_keeps_truncated_section:
  "p4est_file_info io_ex (\<lambda>m. (0, ''user'', 0)) p4est_ex file_trunc
     = Returned (0, 0, ''user'',
         [\<lparr>sm_block_type = CHR ''H'', sm_data_size = 15,
           sm_user_string = printf_ljust 47 (NL # ''abc'')\<rparr>])
   \<and> length file_trunc = 175
   \<and> 80 + (64 + 15 + pad_len 15) = 176"
  by code_simp

section \<open>Error codes and classes\<close>

text \<open>
  C9, amended. For a layer whose error codes and classes are not negative, the value of
  a count error differs from every error code of the layer, \<open>p4est_file_error_code\<close>
  keeps it as its own class, and that class differs from the class of every error code
  of the layer. The value of a format error is an error code of the layer
  (\<open>EIO\<close> without MPI I/O, \<open>sc_MPI_ERR_IO\<close> with it), and
  \<open>p4est_file_error_code\<close> gives it the class that the layer gives that code; where
  the layer returns that code, the class of a format error is a class of the layer.
\<close>

theorem error_code_separation:
  assumes "\<forall>c \<in> io_codes io. 0 \<le> c"
    and "\<forall>c \<in> io_codes io. 0 \<le> snd (sc_io_error_class io c)"
    and "0 \<le> EIO io" and "0 \<le> sc_MPI_ERR_IO io"
  shows "P4EST_FILE_COUNT_ERROR \<notin> io_codes io
    \<and> p4est_file_error_code io P4EST_FILE_COUNT_ERROR = (sc_MPI_SUCCESS, P4EST_FILE_COUNT_ERROR)
    \<and> (\<forall>c \<in> io_codes io. snd (p4est_file_error_code io c)
           \<noteq> snd (p4est_file_error_code io P4EST_FILE_COUNT_ERROR))
    \<and> P4EST_ERR_IO io = (if enable_mpiio io then sc_MPI_ERR_IO io else EIO io)
    \<and> p4est_file_error_code io (P4EST_ERR_IO io) = sc_io_error_class io (P4EST_ERR_IO io)
    \<and> (P4EST_ERR_IO io \<in> io_codes io
        \<longrightarrow> snd (p4est_file_error_code io (P4EST_ERR_IO io)) \<in> io_classes io)"
proof -
  have a: "P4EST_FILE_COUNT_ERROR \<notin> io_codes io"
    using assms(1) by (auto simp: P4EST_FILE_COUNT_ERROR_def)
  have b: "p4est_file_error_code io P4EST_FILE_COUNT_ERROR
      = (sc_MPI_SUCCESS, P4EST_FILE_COUNT_ERROR)"
    by (simp add: p4est_file_error_code_def)
  have c: "\<forall>c \<in> io_codes io. snd (p4est_file_error_code io c)
           \<noteq> snd (p4est_file_error_code io P4EST_FILE_COUNT_ERROR)"
  proof
    fix c assume c: "c \<in> io_codes io"
    with a have "c \<noteq> P4EST_FILE_COUNT_ERROR" by auto
    moreover from c assms(2) have "0 \<le> snd (sc_io_error_class io c)" by blast
    ultimately show "snd (p4est_file_error_code io c)
           \<noteq> snd (p4est_file_error_code io P4EST_FILE_COUNT_ERROR)"
      by (simp add: p4est_file_error_code_def P4EST_FILE_COUNT_ERROR_def)
  qed
  have d: "P4EST_ERR_IO io \<noteq> P4EST_FILE_COUNT_ERROR"
    using assms(3,4) by (simp add: P4EST_ERR_IO_def P4EST_FILE_COUNT_ERROR_def)
  then have e: "p4est_file_error_code io (P4EST_ERR_IO io)
      = sc_io_error_class io (P4EST_ERR_IO io)"
    by (simp add: p4est_file_error_code_def)
  have f: "P4EST_ERR_IO io \<in> io_codes io
        \<longrightarrow> snd (p4est_file_error_code io (P4EST_ERR_IO io)) \<in> io_classes io"
    by (simp add: e io_classes_def)
  from a b c e f show ?thesis by (simp add: P4EST_ERR_IO_def)
qed

lemma io_codes_io_eio: "io_codes io_eio = {5}"
  by (auto simp: io_codes_def io_eio_def io_ex_def sc_MPI_SUCCESS_def)

theorem error_code_separation_witness:
  "io_codes io_eio = {5} \<and> 0 \<le> snd (sc_io_error_class io_eio 5) \<and> 0 \<le> EIO io_eio
   \<and> 0 \<le> sc_MPI_ERR_IO io_eio
   \<and> P4EST_FILE_COUNT_ERROR \<notin> io_codes io_eio
   \<and> p4est_file_error_code io_eio P4EST_FILE_COUNT_ERROR = (0, - 1)
   \<and> P4EST_ERR_IO io_eio = 5
   \<and> p4est_file_error_code io_eio (P4EST_ERR_IO io_eio) = (0, 5)
   \<and> P4EST_ERR_IO io_eio \<in> io_codes io_eio
   \<and> snd (p4est_file_error_code io_eio (P4EST_ERR_IO io_eio)) \<in> io_classes io_eio"
proof -
  have h1: "\<forall>c \<in> io_codes io_eio. 0 \<le> c" by (simp add: io_codes_io_eio)
  have h2: "\<forall>c \<in> io_codes io_eio. 0 \<le> snd (sc_io_error_class io_eio c)"
    by (simp add: io_codes_io_eio) (simp add: io_eio_def io_ex_def)
  have h3: "0 \<le> EIO io_eio" "0 \<le> sc_MPI_ERR_IO io_eio"
    by (simp_all add: io_eio_def io_ex_def)
  have v: "P4EST_ERR_IO io_eio = 5" "P4EST_ERR_IO io_eio \<in> io_codes io_eio"
    by (simp_all add: io_codes_io_eio) (simp_all add: P4EST_ERR_IO_def io_eio_def io_ex_def)
  have cls: "sc_io_error_class io_eio 5 = (0, 5)"
    by (simp add: io_eio_def io_ex_def)
  note t = error_code_separation [OF h1 h2 h3]
  from t have c1: "P4EST_FILE_COUNT_ERROR \<notin> io_codes io_eio" by blast
  from t have "p4est_file_error_code io_eio P4EST_FILE_COUNT_ERROR
      = (sc_MPI_SUCCESS, P4EST_FILE_COUNT_ERROR)" by blast
  then have c2: "p4est_file_error_code io_eio P4EST_FILE_COUNT_ERROR = (0, - 1)"
    by (simp add: sc_MPI_SUCCESS_def P4EST_FILE_COUNT_ERROR_def)
  from t have "p4est_file_error_code io_eio (P4EST_ERR_IO io_eio)
      = sc_io_error_class io_eio (P4EST_ERR_IO io_eio)" by blast
  with v(1) cls have c3: "p4est_file_error_code io_eio (P4EST_ERR_IO io_eio) = (0, 5)"
    by simp
  from t v(2) have c4: "snd (p4est_file_error_code io_eio (P4EST_ERR_IO io_eio))
      \<in> io_classes io_eio" by blast
  have h4: "0 \<le> snd (sc_io_error_class io_eio 5)" by (simp add: cls)
  from io_codes_io_eio h4 h3 c1 c2 v c3 c4 show ?thesis by blast
qed

text \<open>
  The claim as stated fails for the format error: on the layer whose reads fail with
  \<open>EIO\<close>, the value of a format error is an error code of the layer, and its class
  is a class of the layer.
\<close>

theorem format_error_is_backend_code:
  "P4EST_ERR_IO io_eio \<in> io_codes io_eio
   \<and> snd (p4est_file_error_code io_eio (P4EST_ERR_IO io_eio)) \<in> io_classes io_eio
   \<and> fst (sc_io_read_at io_eio file_h20 80 [] 64) = P4EST_ERR_IO io_eio"
  by (simp add: io_classes_def io_codes_io_eio)
    (simp add: P4EST_ERR_IO_def io_eio_def io_ex_def p4est_file_error_code_def
      P4EST_FILE_COUNT_ERROR_def sc_io_read_at_def Let_def)

section \<open>What the three evaluations exclude\<close>

text \<open>
  The skip does not leave the cursor at 96, the end of the skipped section.
\<close>

theorem read_header_skip_cursor_witness:
  "p4est_file_read_header io_ex file_h20 fc_ex 0 False False
     \<noteq> Returned \<lparr>r_file = file_h20,
                 r_fc = Some (fc_ex\<lparr>fc_accessed_bytes := 96, fc_num_calls := 1\<rparr>),
                 r_ret = False, r_errcode = 0, r_out = ([], [])\<rparr>"
  using read_header_skip_cursor by (simp add: fc_ex_def)

text \<open>
  After the skip, the read of the second section does not give what it gives from the
  end of the first section.
\<close>

theorem skip_cursor_inside_section_witness:
  "p4est_file_read_header io_ex file_h20_h5
       (fc_ex\<lparr>fc_accessed_bytes := 80, fc_num_calls := 1\<rparr>) 5 True True
     \<noteq> p4est_file_read_header io_ex file_h20_h5
         (fc_ex\<lparr>fc_accessed_bytes := 96, fc_num_calls := 1\<rparr>) 5 True True"
  using skip_cursor_inside_section by simp

text \<open>The scan of the cut file does not return the empty array.\<close>

theorem info_keeps_truncated_section_witness:
  "p4est_file_info io_ex (\<lambda>m. (0, ''user'', 0)) p4est_ex file_trunc
     \<noteq> Returned (0, 0, ''user'', [])"
  using info_keeps_truncated_section by simp

section \<open>Inflation of an empty slice\<close>

lemma locidx_cast_id: "- (2 ^ 31) \<le> g \<Longrightarrow> g < 2 ^ 31 \<Longrightarrow> locidx_cast g = g"
  unfolding locidx_cast_def by (simp add: signed_of_int signed_take_bit_int_eq_self)

lemma inflate_trees_no_local:
  "inflate_trees env d (- 1) (- 2) pertree jts zqoffset gquadremain gtreeskip qap dap
     = Some (map (\<lambda>jt. empty_tree env zqoffset) jts, zqoffset, gquadremain, qap, dap)"
  by (induction jts) auto

text \<open>
  C8. When the rank owns no quadrant, \<open>p4est_inflate\<close> returns a forest with
  \<open>first_local_tree = -1\<close> and \<open>last_local_tree = -2\<close>, whose trees (one for each
  tree of the connectivity) hold no quadrant, and both arrays are left unread.
\<close>

theorem inflate_empty_slice:
  assumes "comm_rank mpicomm < comm_size mpicomm"
    and "comm_size mpicomm + 1 \<le> length gfq0"
    and "0 \<le> num_trees conn"
    and "gfq0 ! (comm_rank mpicomm + 1) - gfq0 ! comm_rank mpicomm = 0"
  shows "\<exists>p. p4est_inflate_state env mpicomm conn gfq0 pertree quads data uptr
             = Some (p, quads, case data of None \<Rightarrow> [] | Some a \<Rightarrow> array a)
           \<and> p4est_inflate env mpicomm conn gfq0 pertree quads data uptr = Some p
           \<and> first_local_tree p = - 1 \<and> last_local_tree p = - 2
           \<and> local_num_quadrants p = 0
           \<and> length (trees p) = nat (num_trees conn)
           \<and> (\<forall>t \<in> set (trees p). quadrants t = [])"
proof -
  have idx: "take (comm_size mpicomm + 1) gfq0 ! (comm_rank mpicomm + 1)
      = gfq0 ! (comm_rank mpicomm + 1)"
    "take (comm_size mpicomm + 1) gfq0 ! comm_rank mpicomm = gfq0 ! comm_rank mpicomm"
    using assms(1) by simp_all
  have z: "locidx_cast 0 = 0" by (simp add: locidx_cast_id)
  have len: "length [0..num_trees conn - 1] = nat (num_trees conn)"
    using assms(3) by simp
  show ?thesis
    using assms idx
    by (auto simp: p4est_inflate_state_def p4est_inflate_def Let_def z
        inflate_trees_no_local len empty_tree_def simp del: length_upto)
qed

theorem inflate_empty_slice_witness:
  "comm_rank \<lparr>comm_size = 2, comm_rank = 1\<rparr> < comm_size \<lparr>comm_size = 2, comm_rank = 1\<rparr>
   \<and> comm_size \<lparr>comm_size = 2, comm_rank = 1\<rparr> + 1 \<le> length [0, 3, 3 :: int]
   \<and> 0 \<le> num_trees \<lparr>num_trees = 2\<rparr>
   \<and> [0, 3, 3 :: int] ! (comm_rank \<lparr>comm_size = 2, comm_rank = 1\<rparr> + 1)
       - [0, 3, 3] ! comm_rank \<lparr>comm_size = 2, comm_rank = 1\<rparr> = 0
   \<and> (\<exists>p. p4est_inflate_state env_ex \<lparr>comm_size = 2, comm_rank = 1\<rparr> \<lparr>num_trees = 2\<rparr>
              [0, 3, 3] [0, 2, 3] [1, 2, 3] None 0 = Some (p, [1, 2, 3], [])
            \<and> first_local_tree p = - 1 \<and> last_local_tree p = - 2
            \<and> map quadrants (trees p) = [[], []])"
proof -
  have h: "comm_rank \<lparr>comm_size = 2, comm_rank = 1\<rparr> < comm_size \<lparr>comm_size = 2, comm_rank = 1\<rparr>"
    "comm_size \<lparr>comm_size = 2, comm_rank = 1\<rparr> + 1 \<le> length [0, 3, 3 :: int]"
    "0 \<le> num_trees \<lparr>num_trees = 2\<rparr>"
    "[0, 3, 3 :: int] ! (comm_rank \<lparr>comm_size = 2, comm_rank = 1\<rparr> + 1)
       - [0, 3, 3] ! comm_rank \<lparr>comm_size = 2, comm_rank = 1\<rparr> = 0"
    by simp_all
  from inflate_empty_slice [OF h, of env_ex "[0, 2, 3]" "[1, 2, 3]" None 0]
  obtain p where p: "p4est_inflate_state env_ex \<lparr>comm_size = 2, comm_rank = 1\<rparr>
        \<lparr>num_trees = 2\<rparr> [0, 3, 3] [0, 2, 3] [1, 2, 3] None 0 = Some (p, [1, 2, 3], [])"
    "first_local_tree p = - 1" "last_local_tree p = - 2"
    "length (trees p) = nat (num_trees \<lparr>num_trees = 2\<rparr>)"
    "\<forall>t \<in> set (trees p). quadrants t = []"
    by auto
  from p(4) obtain t1 t2 where ts: "trees p = [t1, t2]"
    by (cases "trees p"; cases "tl (trees p)") auto
  with p(5) have m: "map quadrants (trees p) = [[], []]" by simp
  have ex: "\<exists>p. p4est_inflate_state env_ex \<lparr>comm_size = 2, comm_rank = 1\<rparr>
        \<lparr>num_trees = 2\<rparr> [0, 3, 3] [0, 2, 3] [1, 2, 3] None 0 = Some (p, [1, 2, 3], [])
      \<and> first_local_tree p = - 1 \<and> last_local_tree p = - 2
      \<and> map quadrants (trees p) = [[], []]"
    by (rule exI [of _ p]) (simp only: p(1) p(2) p(3) m simp_thms)
  show ?thesis
    apply (intro conjI)
        apply (rule h(1))
       apply (rule h(2))
      apply (rule h(3))
     apply (rule h(4))
    apply (rule ex)
    done
qed

section \<open>The output of deflation\<close>












section \<open>Field sections do not depend on the partition\<close>



















section \<open>The round trip of deflate and inflate\<close>


















end
